theory Spec2Isabelle
  imports Main
begin

section \<open>Python strings and \<open>os.path\<close> (POSIX)\<close>

text \<open>
  Paths are Python \<open>str\<close> values, modelled as \<open>string\<close>. The slicing and the
  \<open>os.path\<close> functions below follow CPython's \<open>posixpath\<close> and
  \<open>genericpath\<close> modules, which the repository calls.
\<close>

definition endswith :: "string \<Rightarrow> string \<Rightarrow> bool" where
  \<comment> \<open>\<open>s.endswith(suf)\<close>\<close>
  "endswith s suf = (length suf \<le> length s \<and> drop (length s - length suf) s = suf)"

definition startswith :: "string \<Rightarrow> string \<Rightarrow> bool" where
  \<comment> \<open>\<open>s.startswith(pre)\<close>\<close>
  "startswith s pre = (take (length pre) s = pre)"

definition last_chars :: "nat \<Rightarrow> string \<Rightarrow> string" where
  \<comment> \<open>\<open>s[-n:]\<close> for a positive \<open>n\<close>: the whole string when it is shorter than \<open>n\<close>\<close>
  "last_chars n s = drop (length s - n) s"

definition drop_last :: "nat \<Rightarrow> string \<Rightarrow> string" where
  \<comment> \<open>\<open>s[:-n]\<close>; Python reads \<open>s[:-0]\<close> as \<open>s[:0]\<close>, the empty string\<close>
  "drop_last n s = (if n = 0 then [] else take (length s - n) s)"

fun rstrip_sep :: "string \<Rightarrow> string" where
  \<comment> \<open>\<open>s.rstrip('/')\<close>\<close>
  "rstrip_sep s = rev (dropWhile (\<lambda>c. c = CHR ''/'') (rev s))"

fun split_sep :: "string \<Rightarrow> string list" where
  \<comment> \<open>\<open>s.split('/')\<close>: always at least one component\<close>
  "split_sep [] = [[]]"
| "split_sep (c # cs) =
     (if c = CHR ''/'' then [] # split_sep cs
      else (case split_sep cs of [] \<Rightarrow> [[c]] | w # ws \<Rightarrow> (c # w) # ws))"

fun join_sep :: "string list \<Rightarrow> string" where
  \<comment> \<open>\<open>'/'.join(comps)\<close>\<close>
  "join_sep [] = []"
| "join_sep [w] = w"
| "join_sep (w # ws) = w @ ''/'' @ join_sep ws"

definition os_path_split :: "string \<Rightarrow> string \<times> string" where
  \<comment> \<open>\<open>posixpath.split\<close>: the head loses its trailing slashes unless it is all slashes\<close>
  "os_path_split p =
     (let tail = rev (takeWhile (\<lambda>c. c \<noteq> CHR ''/'') (rev p));
          head = take (length p - length tail) p
      in (if head \<noteq> [] \<and> \<not> (\<forall>c \<in> set head. c = CHR ''/'') then rstrip_sep head else head,
          tail))"

definition os_path_dirname :: "string \<Rightarrow> string" where
  "os_path_dirname p = fst (os_path_split p)"

definition os_path_basename :: "string \<Rightarrow> string" where
  "os_path_basename p = snd (os_path_split p)"

definition os_path_join :: "string \<Rightarrow> string \<Rightarrow> string" where
  \<comment> \<open>\<open>posixpath.join(a, b)\<close>\<close>
  "os_path_join a b =
     (if startswith b ''/'' then b
      else if a = [] \<or> endswith a ''/'' then a @ b
      else a @ ''/'' @ b)"

definition os_path_splitext :: "string \<Rightarrow> string \<times> string" where
  \<comment> \<open>\<open>genericpath._splitext\<close>: the extension starts at the last dot of the last
      component, unless only dots precede it there\<close>
  "os_path_splitext p =
     (let base = rev (takeWhile (\<lambda>c. c \<noteq> CHR ''/'') (rev p));
          e = rev (takeWhile (\<lambda>c. c \<noteq> CHR ''.'') (rev base));
          stem = take (length base - length e - 1) base
      in if CHR ''.'' \<in> set base \<and> (\<exists>c \<in> set stem. c \<noteq> CHR ''.'')
         then (take (length p - length e - 1) p, CHR ''.'' # e)
         else (p, []))"

fun norm_comps :: "bool \<Rightarrow> string list \<Rightarrow> string list \<Rightarrow> string list" where
  \<comment> \<open>the loop of \<open>posixpath.normpath\<close>; \<open>acc\<close> is \<open>new_comps\<close>\<close>
  "norm_comps rooted acc [] = acc"
| "norm_comps rooted acc (c # cs) =
     (if c = [] \<or> c = ''.'' then norm_comps rooted acc cs
      else if c \<noteq> ''..'' \<or> (\<not> rooted \<and> acc = []) \<or> (acc \<noteq> [] \<and> last acc = ''..'')
        then norm_comps rooted (acc @ [c]) cs
      else if acc \<noteq> [] then norm_comps rooted (butlast acc) cs
      else norm_comps rooted acc cs)"

definition os_path_normpath :: "string \<Rightarrow> string" where
  "os_path_normpath p =
     (if p = [] then ''.''
      else let slashes = (if startswith p ''/''
                          then (if startswith p ''//'' \<and> \<not> startswith p ''///''
                                then ''//'' else ''/'')
                          else []);
               q = slashes @ join_sep (norm_comps (slashes \<noteq> []) [] (split_sep p))
           in if q = [] then ''.'' else q)"

definition os_path_abspath :: "string \<Rightarrow> string \<Rightarrow> string" where
  \<comment> \<open>\<open>posixpath.abspath\<close>; the first argument is \<open>os.getcwd()\<close>\<close>
  "os_path_abspath cwd p =
     os_path_normpath (if startswith p ''/'' then p else os_path_join cwd p)"











section \<open>The file system\<close>

text \<open>
  The file system maps absolute, normalised paths to the kind of node found there.
  Relative paths are resolved against the working directory of the process.
\<close>

datatype node = RegFile | Directory

type_synonym filesys = "string \<rightharpoonup> node"

definition os_path_exists :: "string \<Rightarrow> filesys \<Rightarrow> string \<Rightarrow> bool" where
  \<comment> \<open>the empty path names nothing\<close>
  "os_path_exists cwd fs p = (p \<noteq> [] \<and> fs (os_path_abspath cwd p) \<noteq> None)"

definition os_path_isdir :: "string \<Rightarrow> filesys \<Rightarrow> string \<Rightarrow> bool" where
  "os_path_isdir cwd fs p = (p \<noteq> [] \<and> fs (os_path_abspath cwd p) = Some Directory)"

definition dir_prefixes :: "string \<Rightarrow> string list" where
  \<comment> \<open>the proper ancestors of an absolute path, below the root\<close>
  "dir_prefixes a = map (\<lambda>i. take i a) (filter (\<lambda>i. a ! i = CHR ''/'') [1..<length a])"


section \<open>Errors\<close>

datatype error =
    RuntimeError string
  | AssertionError string
  | InvalidNiftiFileError string
  | DependencyError string
  | FileNotFoundError string
  | FileExistsError string
  | NotADirectoryError string
  | IsADirectoryError string
  | NameError string
  | AttributeError string
  | ValueError string
  | IndexError string
  | UnicodeDecodeError string


section \<open>\<open>fileio.py\<close>: \<open>File\<close> and \<open>NiiFile\<close>\<close>

text \<open>
  \<open>File\<close> and \<open>WorkDir\<close> both derive from \<open>IOBaseObj\<close>, which holds the path \<open>src\<close>.
\<close>

record IOBaseObj =
  src :: string

record File = IOBaseObj +
  ext :: string

definition IOBaseObj_abspath :: "string \<Rightarrow> 'a IOBaseObj_scheme \<Rightarrow> string" where
  \<comment> \<open>\<open>IOBaseObj.abspath()\<close> with \<open>follow_sym_links=False\<close>\<close>
  "IOBaseObj_abspath wd f = os_path_abspath wd (src f)"

definition File_init :: "string \<Rightarrow> filesys \<Rightarrow> string \<Rightarrow> string \<Rightarrow> bool \<Rightarrow> error + File" where
  \<comment> \<open>\<open>File.__init__(src, ext, assert_exists)\<close>\<close>
  "File_init cwd fs s e assert_exists =
     (let x = (if e \<noteq> [] then e
               else if endswith s ''.gz'' then last_chars 7 s
               else snd (os_path_splitext s))
      in if assert_exists \<and> \<not> os_path_exists cwd fs s
         then Inl (AssertionError (''Input file '' @ s @ '' does not exist.''))
         else Inr \<lparr>src = s, ext = x\<rparr>)"

definition NiiFile_init ::
  "string \<Rightarrow> filesys \<Rightarrow> (string \<Rightarrow> bool) \<Rightarrow> string \<Rightarrow> bool \<Rightarrow> bool \<Rightarrow> error + File" where
  \<comment> \<open>\<open>NiiFile.__init__(src, assert_exists, validate_nifti)\<close>; \<open>loads p\<close> says whether
      \<open>nib.load\<close> accepts the file at \<open>p\<close>\<close>
  "NiiFile_init cwd fs loads s assert_exists validate_nifti =
     (case File_init cwd fs s [] False of
        Inl err \<Rightarrow> Inl err
      | Inr f0 \<Rightarrow>
          let f = (if endswith (src f0) ''.nii.gz'' then f0\<lparr>ext := ''.nii.gz''\<rparr>
                   else if endswith (src f0) ''.nii'' then f0\<lparr>ext := ''.nii''\<rparr>
                   else f0\<lparr>ext := ''.nii.gz'', src := src f0 @ ''.nii.gz''\<rparr>)
          in if assert_exists \<and> \<not> os_path_exists cwd fs (src f)
             then Inl (AssertionError (''Input NIFTI file '' @ src f @ '' does not exist.''))
             else if validate_nifti \<and> os_path_exists cwd fs (src f) \<and> \<not> loads (src f)
             then Inl (InvalidNiftiFileError (src f))
             else Inr f)"


definition File_rm_ext :: "File \<Rightarrow> string \<Rightarrow> string" where
  \<comment> \<open>\<open>File.rm_ext(ext)\<close>\<close>
  "File_rm_ext f e =
     (if e \<noteq> [] then drop_last (length e) (src f)
      else if ext f \<noteq> [] then drop_last (length (ext f)) (src f)
      else drop_last 4 (src f))"

definition File_file_parts :: "string \<Rightarrow> File \<Rightarrow> string \<Rightarrow> string \<times> string \<times> string" where
  \<comment> \<open>\<open>File.file_parts(ext)\<close>: directory of the absolute path, file name without the
      extension, extension. After the extension is cut off, \<open>splitext\<close> is applied once
      more to what is left.\<close>
  "File_file_parts wd f e =
     (let (path, fname) = os_path_split (os_path_abspath wd (src f)) in
      if e \<noteq> [] then (path, fst (os_path_splitext (drop_last (length e) fname)), e)
      else if ext f \<noteq> [] then (path, fst (os_path_splitext (drop_last (length (ext f)) fname)), ext f)
      else (path, fst (os_path_splitext fname), snd (os_path_splitext fname)))"

definition sibling_path :: "string \<Rightarrow> File \<Rightarrow> string \<Rightarrow> string" where
  \<comment> \<open>the way every stage names an output beside an input:
      \<open>[path, filename, ext] = f.file_parts(); os.path.join(path, filename + suffix + ext)\<close>\<close>
  "sibling_path wd f suffix =
     (let (path, filename, e) = File_file_parts wd f [] in os_path_join path (filename @ suffix @ e))"


section \<open>The process: environment, files, log sink, child processes\<close>

text \<open>
  The state that the code reads and mutates: the working directory, \<open>os.environ\<close>, the
  file system, the records handed to the log sink (each call of a \<open>LogFile\<close> method
  with its level), and the trace of what the process did to the outside: every child
  process spawned, with the environment it was given and its exit status, and every file
  removed. The random numbers that \<open>random.randint\<close> will return are a stream
  \<open>rand\<close>, of which \<open>drawn\<close> have been used.
\<close>

datatype LogLevel = Info | Debug | Critical | Error | Warning

datatype event =
    Spawn string "string \<rightharpoonup> string" int
  | Remove string
  | Rmtree string

record world =
  cwd :: string
  environ :: "string \<rightharpoonup> string"
  files :: filesys
  logged :: "(LogLevel \<times> string) list"
  events :: "event list"
  rand :: "nat \<Rightarrow> nat"
  drawn :: nat

text \<open>
  The operating system and the external executables are a parameter: given the command
  line, the \<open>shell\<close> flag, the environment and the file system, a child process either
  cannot be started (\<open>None\<close>: \<open>Popen\<close> raises) or exits with a status, the bytes of its
  two output streams and the file system as it left it. \<open>Command.run\<close> hands \<open>Popen\<close> the
  words of the command line; the system is given the line they were split from.
\<close>

type_synonym system =
  "string \<Rightarrow> bool \<Rightarrow> (string \<rightharpoonup> string) \<Rightarrow> filesys \<Rightarrow> (int \<times> string \<times> string \<times> filesys) option"

definition digit_char :: "nat \<Rightarrow> char" where
  "digit_char d = ''0123456789'' ! d"

fun str_nat :: "nat \<Rightarrow> string" where
  "str_nat n = (if n < 10 then [digit_char n] else str_nat (n div 10) @ [digit_char (n mod 10)])"

declare str_nat.simps [simp del]

definition str_int :: "int \<Rightarrow> string" where
  \<comment> \<open>Python's \<open>str\<close> of an \<open>int\<close>, as an f-string formats it\<close>
  "str_int i = (if i < 0 then CHR ''-'' # str_nat (nat (- i)) else str_nat (nat i))"

definition log_call :: "LogLevel \<Rightarrow> string \<Rightarrow> world \<Rightarrow> world" where
  "log_call lvl msg w = w\<lparr>logged := logged w @ [(lvl, msg)]\<rparr>"

definition open_fault :: "string \<Rightarrow> filesys \<Rightarrow> string \<Rightarrow> error option" where
  \<comment> \<open>what \<open>open(p, 'a')\<close> raises, if it raises: the first ancestor that is not a directory
      decides between \<open>FileNotFoundError\<close> and \<open>NotADirectoryError\<close>\<close>
  "open_fault wd fs p =
     (let a = os_path_abspath wd p in
      if p = [] then Some (FileNotFoundError p)
      else case find (\<lambda>q. fs q \<noteq> Some Directory) (dir_prefixes a) of
             Some q \<Rightarrow> Some (if fs q = Some RegFile then NotADirectoryError p else FileNotFoundError p)
           | None \<Rightarrow>
               if fs a = Some Directory then Some (IsADirectoryError p)
               else if endswith p ''/''
                 then Some (if fs a = Some RegFile then NotADirectoryError p else IsADirectoryError p)
               else None)"

definition open_append :: "string \<Rightarrow> world \<Rightarrow> error + world" where
  \<comment> \<open>\<open>open(p, 'a')\<close>, which creates the file when it is not there, and what is written
      to it; the contents of files are not modelled\<close>
  "open_append p w =
     (case open_fault (cwd w) (files w) p of
        Some e \<Rightarrow> Inl e
      | None \<Rightarrow> Inr (w\<lparr>files := (files w)(os_path_abspath (cwd w) p \<mapsto> RegFile)\<rparr>))"


section \<open>\<open>command.py\<close>: \<open>Command.run\<close>\<close>

record Command =
  command :: string
  env :: "(string \<rightharpoonup> string) option"

definition failed_msg :: "string \<Rightarrow> int \<Rightarrow> string" where
  \<comment> \<open>\<open>f"Failed:\t{self.command} with return code {p.returncode}"\<close>\<close>
  "failed_msg c rc = ''Failed:'' @ [CHR 0x09] @ c @ '' with return code '' @ str_int rc"

definition LogFile_init :: "string \<Rightarrow> world \<Rightarrow> error + world" where
  \<comment> \<open>\<open>LogFile.__init__(log_file)\<close> of \<open>logutil.py\<close> with the default arguments:
      \<open>logging.FileHandler\<close> opens the absolute path of the file for appending\<close>
  "LogFile_init log_file w = open_append (os_path_abspath (cwd w) log_file) w"





definition merge_env :: "Command \<Rightarrow> world \<Rightarrow> world" where
  \<comment> \<open>\<open>merged_env = os.environ\<close> binds the mapping itself, so \<open>merged_env.update(self.env)\<close>
      updates \<open>os.environ\<close>\<close>
  "merge_env c w = (case env c of None \<Rightarrow> w | Some e \<Rightarrow> w\<lparr>environ := environ w ++ e\<rparr>)"

definition check_status ::
  "Command \<Rightarrow> bool \<Rightarrow> bool \<Rightarrow> int \<Rightarrow> string option \<times> string option \<Rightarrow> world
     \<Rightarrow> (error + int \<times> string option \<times> string option) \<times> world" where
  \<comment> \<open>the last statements of \<open>run\<close>, from \<open>if p.returncode != 0\<close>; \<open>sink\<close> is the truth value
      of \<open>log\<close>\<close>
  "check_status c sink raise_exc rc outs w =
     (if rc \<noteq> 0
      then let w' = (if sink then log_call Error (failed_msg (command c) rc) w else w)
           in if raise_exc
              then (Inl (RuntimeError ([CHR 0x0A] @ failed_msg (command c) rc @ [CHR 0x0A])), w')
              else (Inr (rc, outs), w')
      else (Inr (rc, outs), w))"



section \<open>\<open>workdir.py\<close> and \<open>tempdir.py\<close>: \<open>WorkDir\<close>, \<open>TmpDir\<close>, \<open>TmpFile\<close>\<close>

record WorkDir = IOBaseObj +
  parent_dir :: string

definition randint :: "nat \<Rightarrow> world \<Rightarrow> nat \<times> world" where
  \<comment> \<open>\<open>random.randint(0, n)\<close>\<close>
  "randint n w = (rand w (drawn w) mod (n + 1), w\<lparr>drawn := Suc (drawn w)\<rparr>)"

definition is_under :: "string \<Rightarrow> string \<Rightarrow> bool" where
  \<comment> \<open>\<open>q\<close> is \<open>a\<close> or lies below the directory \<open>a\<close>\<close>
  "is_under a q = (q = a \<or> startswith q (if endswith a ''/'' then a else a @ ''/''))"

definition os_makedirs :: "string \<Rightarrow> world \<Rightarrow> error + world" where
  \<comment> \<open>\<open>os.makedirs(name)\<close> with \<open>exist_ok=False\<close>: the missing ancestors are created too\<close>
  "os_makedirs p w =
     (let a = os_path_abspath (cwd w) p in
      if p = [] then Inl (FileNotFoundError p)
      else if files w a \<noteq> None then Inl (FileExistsError p)
      else if list_ex (\<lambda>q. files w q = Some RegFile) (dir_prefixes a)
        then Inl (NotADirectoryError p)
      else Inr (w\<lparr>files := (\<lambda>q. if q = a \<or> q \<in> set (dir_prefixes a) then Some Directory
                                   else files w q)\<rparr>))"

definition shutil_rmtree :: "string \<Rightarrow> bool \<Rightarrow> world \<Rightarrow> error + world" where
  \<comment> \<open>\<open>shutil.rmtree(path, ignore_errors)\<close>: a directory goes with all below it; anything
      else is an error, which \<open>ignore_errors\<close> swallows\<close>
  "shutil_rmtree p ignore_errors w =
     (let a = os_path_abspath (cwd w) p in
      if p \<noteq> [] \<and> files w a = Some Directory
      then Inr (w\<lparr>files := (\<lambda>q. if is_under a q then None else files w q),
                   events := events w @ [Rmtree a]\<rparr>)
      else if ignore_errors then Inr w
      else if p \<noteq> [] \<and> files w a = Some RegFile then Inl (NotADirectoryError p)
      else Inl (FileNotFoundError p))"

definition WorkDir_init :: "string \<Rightarrow> bool \<Rightarrow> world \<Rightarrow> WorkDir" where
  \<comment> \<open>\<open>WorkDir.__init__(src, use_cwd)\<close>\<close>
  "WorkDir_init s use_cwd w =
     (if use_cwd
      then \<lparr>src = os_path_join (cwd w) s, parent_dir = os_path_dirname (os_path_join (cwd w) s)\<rparr>
      else \<lparr>src = s, parent_dir = os_path_dirname s\<rparr>)"

definition WorkDir_exists :: "WorkDir \<Rightarrow> world \<Rightarrow> bool" where
  \<comment> \<open>\<open>WorkDir.exists()\<close>\<close>
  "WorkDir_exists d w =
     (let a = IOBaseObj_abspath (cwd w) d
      in os_path_isdir (cwd w) (files w) a \<and> os_path_exists (cwd w) (files w) a)"

definition WorkDir_mkdir :: "WorkDir \<Rightarrow> world \<Rightarrow> error + world" where
  \<comment> \<open>\<open>WorkDir.mkdir()\<close>\<close>
  "WorkDir_mkdir d w = (if \<not> WorkDir_exists d w then os_makedirs (src d) w else Inr w)"

definition WorkDir_rmdir :: "WorkDir \<Rightarrow> bool \<Rightarrow> world \<Rightarrow> error + world" where
  \<comment> \<open>\<open>WorkDir.rmdir(rm_parent)\<close>\<close>
  "WorkDir_rmdir d rm_parent w =
     (if rm_parent \<and> os_path_exists (cwd w) (files w) (parent_dir d)
        then shutil_rmtree (parent_dir d) True w
      else if os_path_exists (cwd w) (files w) (src d)
        then shutil_rmtree (src d) True w
      else Inr w)"


definition TmpDir_init :: "string \<Rightarrow> bool \<Rightarrow> world \<Rightarrow> WorkDir \<times> world" where
  \<comment> \<open>\<open>TmpDir.__init__(src, use_cwd)\<close>\<close>
  "TmpDir_init s use_cwd w =
     (let (r, w1) = randint 10000 w;
          s1 = os_path_join s (''tmp_dir_'' @ str_nat r);
          s2 = (if use_cwd then os_path_join (cwd w1) s1 else s1)
      in (WorkDir_init s2 use_cwd w1, w1))"



definition TmpFile_init :: "string \<Rightarrow> string \<Rightarrow> string \<Rightarrow> world \<Rightarrow> File \<times> world" where
  \<comment> \<open>\<open>TmpDir.TmpFile.__init__(tmp_dir, tmp_file, ext)\<close>\<close>
  "TmpFile_init tmp_dir tmp_file e w =
     (let (name, w1) = (if tmp_file \<noteq> [] then (tmp_file, w)
                        else (let (r, w') = randint 10000 w in (''tmp_file_'' @ str_nat r, w')));
          e1 = (if e \<noteq> [] \<and> CHR ''.'' \<notin> set e then CHR ''.'' # e else e);
          name1 = (if e \<noteq> [] then name @ e1 else name);
          path = os_path_join tmp_dir name1
      in (\<lparr>src = path,
           ext = (if e1 \<noteq> [] then e1
                  else if endswith path ''.gz'' then last_chars 7 path
                  else snd (os_path_splitext path))\<rparr>, w1))"



section \<open>\<open>xfm_tck.py\<close>: what it uses of the \<open>utils\<close> module\<close>

text \<open>
  \<open>xfm_tck.py\<close> imports \<open>File\<close>, \<open>NiiFile\<close>, \<open>Command\<close>, \<open>LogFile\<close> and \<open>TmpDir\<close> from a
  module \<open>utils\<close> with older method names than the classes of \<open>xfm_tck/utils\<close>: the path
  of a file object is \<open>file\<close> (here \<open>src\<close>), \<open>abs_path()\<close> is \<open>abspath()\<close>, and a \<open>Command\<close>
  is made from the executable's name and collects its arguments in \<open>cmd_list\<close>.
  Each stage has a log sink (\<open>self.log\<close> is always a \<open>LogFile\<close> object).
\<close>

type_synonym 'a action = "world \<Rightarrow> (error + 'a) \<times> world"

definition bind_w :: "'a action \<Rightarrow> ('a \<Rightarrow> 'b action) \<Rightarrow> 'b action" where
  \<comment> \<open>one statement after another: an exception of the first ends the sequence\<close>
  "bind_w m f w = (case m w of (Inl e, w') \<Rightarrow> (Inl e, w') | (Inr x, w') \<Rightarrow> f x w')"

definition return_w :: "'a \<Rightarrow> 'a action" where
  "return_w x w = (Inr x, w)"

definition when_w :: "bool \<Rightarrow> unit action \<Rightarrow> unit action" where
  \<comment> \<open>\<open>if b: m\<close>\<close>
  "when_w b m = (if b then m else return_w ())"

fun join_words :: "string list \<Rightarrow> string" where
  \<comment> \<open>the command line of an argument list\<close>
  "join_words [] = []"
| "join_words [a] = a"
| "join_words (a # ws) = a @ '' '' @ join_words ws"

definition run_cmd_list :: "system \<Rightarrow> string list \<Rightarrow> unit action" where
  \<comment> \<open>Modelled from the spec: \<open>Command(name)\<close> with its \<open>cmd_list\<close>, and \<open>cmd.run(self.log)\<close>,
      of the \<open>utils\<close> module that \<open>xfm_tck.py\<close> imports, which is not among the sources.
      After the spec's process invoker: the invocation is recorded to the log sink at
      informational level, the executable is spawned with the argument list and not
      through a shell, and a non-zero exit status is recorded at error level and raised.
      The exception and the two messages are those of \<open>Command.run\<close> of \<open>command.py\<close>.\<close>
  "run_cmd_list sys cmd_list w =
     (let c = join_words cmd_list;
          w1 = log_call Info (''Running:'' @ [CHR 0x09] @ c) w
      in case sys c False (environ w1) (files w1) of
           None \<Rightarrow> (Inl (FileNotFoundError c), w1)
         | Some (rc, out, err, fs') \<Rightarrow>
             let w3 = w1\<lparr>files := fs', events := events w1 @ [Spawn c (environ w1) rc]\<rparr>
             in if rc \<noteq> 0
                then (Inl (RuntimeError ([CHR 0x0A] @ failed_msg c rc @ [CHR 0x0A])),
                      log_call Error (failed_msg c rc) w3)
                else (Inr (), w3))"

definition os_remove :: "string \<Rightarrow> unit action" where
  \<comment> \<open>\<open>os.remove(path)\<close>\<close>
  "os_remove p w =
     (let a = os_path_abspath (cwd w) p in
      if p = [] \<or> files w a = None then (Inl (FileNotFoundError p), w)
      else if files w a = Some Directory then (Inl (IsADirectoryError p), w)
      else (Inr (), w\<lparr>files := (files w)(a := None), events := events w @ [Remove a]\<rparr>))"

fun contains :: "string \<Rightarrow> string \<Rightarrow> bool" where
  \<comment> \<open>\<open>sub in s\<close>\<close>
  "contains [] sub = (sub = [])"
| "contains (c # cs) sub = (startswith (c # cs) sub \<or> contains cs sub)"

definition new_File :: "string \<Rightarrow> File" where
  \<comment> \<open>\<open>File(name)\<close> with the default arguments, which cannot raise\<close>
  "new_File s = \<lparr>src = s, ext = (if endswith s ''.gz'' then last_chars 7 s
                                    else snd (os_path_splitext s))\<rparr>"

definition new_NiiFile :: "string \<Rightarrow> File" where
  \<comment> \<open>\<open>NiiFile(name)\<close> with the default arguments, which cannot raise\<close>
  "new_NiiFile s =
     (if endswith s ''.nii.gz'' then \<lparr>src = s, ext = ''.nii.gz''\<rparr>
      else if endswith s ''.nii'' then \<lparr>src = s, ext = ''.nii''\<rparr>
      else \<lparr>src = s @ ''.nii.gz'', ext = ''.nii.gz''\<rparr>)"


section \<open>\<open>xfm_tck.py\<close>: \<open>ReconMRtrix\<close>\<close>

record ReconMRtrix =
  nii_file :: File
  bval :: File
  bvec :: File
  json_file :: File

definition Mif :: "string \<Rightarrow> bool \<Rightarrow> File" where
  \<comment> \<open>\<open>ReconMRtrix.Mif(file, gzip)\<close>: the test is \<open>'.gz' in file\<close>, anywhere in the path;
      the extension kept is the one cut off\<close>
  "Mif file gzip =
     (if contains file ''.gz''
      then (if gzip then \<lparr>src = drop_last 7 file @ ''.mif.gz'', ext = last_chars 7 file\<rparr>
            else \<lparr>src = drop_last 7 file @ ''.mif'', ext = last_chars 7 file\<rparr>)
      else (if gzip then \<lparr>src = drop_last 4 file @ ''.mif.gz'', ext = last_chars 4 file\<rparr>
            else \<lparr>src = drop_last 4 file @ ''.mif'', ext = last_chars 4 file\<rparr>))"

definition stage_name :: "string \<Rightarrow> File \<Rightarrow> string \<Rightarrow> string" where
  \<comment> \<open>\<open>[path, filename, _ext] = f.file_parts(); os.path.join(path, filename + tail)\<close>\<close>
  "stage_name wd f tail =
     (let (path, filename, _) = File_file_parts wd f [] in os_path_join path (filename @ tail))"

definition flag :: "bool \<Rightarrow> string list \<Rightarrow> string list" where
  \<comment> \<open>\<open>if b: cmd_list.append(...)\<close>\<close>
  "flag b args = (if b then args else [])"

record metric_maps =
  fa_mif :: File
  md_mif :: File
  ad_mif :: File
  rd_mif :: File

definition diff_metric_names :: "string \<Rightarrow> ReconMRtrix \<Rightarrow> File \<Rightarrow> File \<times> metric_maps" where
  \<comment> \<open>the output names of \<open>compute_diff_metrics\<close>: the tensor image and the four maps\<close>
  "diff_metric_names wd self dwi =
     (let e = (if contains (src dwi) ''.gz'' then ''.mif.gz'' else ''.mif'')
      in (Mif (stage_name wd (nii_file self) (''.diff_tensor'' @ e)) False,
          \<lparr>fa_mif = Mif (stage_name wd (nii_file self) (''.fa'' @ e)) False,
           md_mif = Mif (stage_name wd (nii_file self) (''.md'' @ e)) False,
           ad_mif = Mif (stage_name wd (nii_file self) (''.ad'' @ e)) False,
           rd_mif = Mif (stage_name wd (nii_file self) (''.rd'' @ e)) False\<rparr>))"

definition dwi2tensor_cmd :: "File \<Rightarrow> File \<Rightarrow> File option \<Rightarrow> bool \<Rightarrow> string list" where
  "dwi2tensor_cmd dwi tensor maskf force =
     [''dwi2tensor'', src dwi, src tensor]
     @ (case maskf of None \<Rightarrow> [] | Some m \<Rightarrow> [''-mask'', src m])
     @ flag force [''-force'']"

definition tensor2metric_cmd :: "File \<Rightarrow> metric_maps \<Rightarrow> bool \<Rightarrow> bool \<Rightarrow> bool \<Rightarrow> bool \<Rightarrow> string list" where
  "tensor2metric_cmd tensor m fa md ad rd =
     [''tensor2metric'', src tensor]
     @ flag md [''-adc'', src (md_mif m)] @ flag fa [''-fa'', src (fa_mif m)]
     @ flag ad [''-ad'', src (ad_mif m)] @ flag rd [''-rd'', src (rd_mif m)]"

definition compute_diff_metrics ::
  "system \<Rightarrow> ReconMRtrix \<Rightarrow> File \<Rightarrow> File option \<Rightarrow> bool \<Rightarrow> bool \<Rightarrow> bool \<Rightarrow> bool \<Rightarrow> bool \<Rightarrow> bool
     \<Rightarrow> metric_maps action" where
  \<comment> \<open>\<open>ReconMRtrix.compute_diff_metrics(dwi, mask, fa, md, ad, rd, cleanup, force)\<close>\<close>
  "compute_diff_metrics sys self dwi maskf fa md ad rd cleanup force w =
     (let (tensor, m) = diff_metric_names (cwd w) self dwi
      in bind_w (run_cmd_list sys (dwi2tensor_cmd dwi tensor maskf force))
          (\<lambda>_. bind_w (run_cmd_list sys (tensor2metric_cmd tensor m fa md ad rd))
          (\<lambda>_. bind_w (when_w cleanup (os_remove (src tensor)))
          (\<lambda>_. return_w m))) w)"

definition tcksample_cmd :: "File \<Rightarrow> File \<Rightarrow> File \<Rightarrow> string list" where
  "tcksample_cmd tck metric tmp_metric =
     [''tcksample'', src tck, src metric, src tmp_metric, ''-stat_tck'', ''mean'']"

definition weighted_cmd :: "File \<Rightarrow> File \<Rightarrow> File \<Rightarrow> File \<Rightarrow> bool \<Rightarrow> bool \<Rightarrow> bool \<Rightarrow> string list" where
  "weighted_cmd tck labels out tmp_metric symmetric zero_diagonal force =
     [''tck2connectome'', src tck, src labels, src out, ''-scale_file'', src tmp_metric,
      ''-stat_edge'', ''mean'']
     @ flag symmetric [''-symmetric''] @ flag zero_diagonal [''-zero_diagonal'']
     @ flag force [''-force'']"

fun weighted_passes ::
  "system \<Rightarrow> File \<Rightarrow> File \<Rightarrow> File \<Rightarrow> bool \<Rightarrow> bool \<Rightarrow> bool \<Rightarrow> (File \<times> File) list \<Rightarrow> unit action" where
  \<comment> \<open>\<open>for item in zip(metrics, out_files)\<close>: sample, build the weighted connectome, remove
      the scratch file\<close>
  "weighted_passes sys tck labels tmp_metric symmetric zero_diagonal force [] = return_w ()"
| "weighted_passes sys tck labels tmp_metric symmetric zero_diagonal force (item # items) =
     bind_w (run_cmd_list sys (tcksample_cmd tck (fst item) tmp_metric))
       (\<lambda>_. bind_w (run_cmd_list sys
                       (weighted_cmd tck labels (snd item) tmp_metric symmetric zero_diagonal force))
       (\<lambda>_. bind_w (os_remove (src tmp_metric))
       (\<lambda>_. weighted_passes sys tck labels tmp_metric symmetric zero_diagonal force items)))"

record connectomes =
  connectome :: File
  fa_connectome :: File
  md_connectome :: File
  ad_connectome :: File
  rd_connectome :: File

definition metric_item :: "bool \<Rightarrow> string \<Rightarrow> metric_maps option \<Rightarrow> (metric_maps \<Rightarrow> File) \<Rightarrow> File
    \<Rightarrow> (File \<times> File) list action" where
  \<comment> \<open>\<open>if fa: metrics.append(fa_mif); out_files.append(fa_connectome)\<close>: the name \<open>fa_mif\<close>
      is unbound when the maps were never computed\<close>
  "metric_item b name maps sel out =
     (if b then (case maps of None \<Rightarrow> (\<lambda>w. (Inl (NameError name), w))
                 | Some m \<Rightarrow> return_w [(sel m, out)])
      else return_w [])"

definition connectome_names :: "string \<Rightarrow> ReconMRtrix \<Rightarrow> connectomes \<times> File" where
  \<comment> \<open>the output names of \<open>structural_connectome\<close>, and the scratch file \<open>tmp_metric\<close> that
      every weighted pass writes and removes\<close>
  "connectome_names wd self =
     (\<lparr>connectome = new_File (stage_name wd (nii_file self) (''.structural_connectome'' @ ''.txt'')),
       fa_connectome = new_File (stage_name wd (nii_file self) (''.structural_connectome.fa_weighted'' @ ''.txt'')),
       md_connectome = new_File (stage_name wd (nii_file self) (''.structural_connectome.md_weighted'' @ ''.txt'')),
       ad_connectome = new_File (stage_name wd (nii_file self) (''.structural_connectome.ad_weighted'' @ ''.txt'')),
       rd_connectome = new_File (stage_name wd (nii_file self) (''.structural_connectome.rd_weighted'' @ ''.txt''))\<rparr>,
      new_File (stage_name wd (nii_file self) ''metric.vertex.mean.csv''))"

definition connectome_cmd :: "File \<Rightarrow> File \<Rightarrow> File \<Rightarrow> bool \<Rightarrow> bool \<Rightarrow> bool \<Rightarrow> string list" where
  "connectome_cmd tck labels con symmetric zero_diagonal force =
     [''tck2connectome'', src tck, src labels, src con]
     @ flag symmetric [''-symmetric''] @ flag zero_diagonal [''-zero_diagonal'']
     @ flag force [''-force'']"

definition structural_connectome ::
  "system \<Rightarrow> ReconMRtrix \<Rightarrow> File \<Rightarrow> File \<Rightarrow> File option \<Rightarrow> File option \<Rightarrow> bool \<Rightarrow> bool
     \<Rightarrow> bool \<Rightarrow> bool \<Rightarrow> bool \<Rightarrow> bool \<Rightarrow> bool \<Rightarrow> bool \<Rightarrow> connectomes action" where
  \<comment> \<open>\<open>ReconMRtrix.structural_connectome(tck, labels, dwi, mask, symmetric, zero_diagonal,
      fa, md, ad, rd, cleanup, force)\<close>. Without a \<open>dwi\<close> the \<open>MRtrixError\<close> is made but not
      raised, and the run goes on.\<close>
  "structural_connectome sys self tck labels dwi maskf symmetric zero_diagonal fa md ad rd cleanup force w =
     (let (out, tmp_metric) = connectome_names (cwd w) self
      in bind_w (if fa \<or> md \<or> ad \<or> rd
                 then (case dwi of
                         Some d \<Rightarrow> bind_w (compute_diff_metrics sys self d maskf fa md ad rd cleanup force)
                                     (\<lambda>m. return_w (Some m))
                       | None \<Rightarrow> return_w None)
                 else return_w None)
          (\<lambda>maps. bind_w (run_cmd_list sys
                             (connectome_cmd tck labels (connectome out) symmetric zero_diagonal force))
          (\<lambda>_. bind_w (metric_item fa ''fa_mif'' maps fa_mif (fa_connectome out))
          (\<lambda>i1. bind_w (metric_item md ''md_mif'' maps md_mif (md_connectome out))
          (\<lambda>i2. bind_w (metric_item ad ''ad_mif'' maps ad_mif (ad_connectome out))
          (\<lambda>i3. bind_w (metric_item rd ''rd_mif'' maps rd_mif (rd_connectome out))
          (\<lambda>i4. bind_w (if fa \<or> md \<or> ad \<or> rd
                         then weighted_passes sys tck labels tmp_metric symmetric zero_diagonal force
                                (i1 @ i2 @ i3 @ i4)
                         else return_w ())
          (\<lambda>_. return_w out))))))) w)"

definition pass_events ::
  "File \<Rightarrow> File \<Rightarrow> File \<Rightarrow> bool \<Rightarrow> bool \<Rightarrow> bool \<Rightarrow> (string \<rightharpoonup> string) \<Rightarrow> string \<Rightarrow> File \<times> File
     \<Rightarrow> event list" where
  \<comment> \<open>what one weighted pass that runs to its end leaves in the trace\<close>
  "pass_events tck labels tmp_metric symmetric zero_diagonal force en wd item =
     [Spawn (join_words (tcksample_cmd tck (fst item) tmp_metric)) en 0,
      Spawn (join_words (weighted_cmd tck labels (snd item) tmp_metric symmetric zero_diagonal force)) en 0,
      Remove (os_path_abspath wd (src tmp_metric))]"


section \<open>\<open>xfm_tck.py\<close>: the other stages of \<open>ReconMRtrix\<close>\<close>

text \<open>
  Floating-point parameters (\<open>vox\<close>, \<open>frac_int\<close>, \<open>cutoff\<close>) only ever reach a command line
  through an f-string, so they are carried as the text Python prints for them.
  \<open>which\<close> says which executables \<open>shutil.which\<close> finds.
\<close>

definition raise_w :: "error \<Rightarrow> 'a action" where
  "raise_w e w = (Inl e, w)"

definition lift_w :: "(world \<Rightarrow> error + world) \<Rightarrow> unit action" where
  \<comment> \<open>an operation that returns nothing\<close>
  "lift_w f w = (case f w of Inl e \<Rightarrow> (Inl e, w) | Inr w' \<Rightarrow> (Inr (), w'))"

definition new_TmpDir :: "string \<Rightarrow> bool \<Rightarrow> WorkDir action" where
  \<comment> \<open>\<open>TmpDir(src, use_cwd)\<close> as a step: it draws a random number\<close>
  "new_TmpDir s use_cwd w = (case TmpDir_init s use_cwd w of (d, w') \<Rightarrow> (Inr d, w'))"

definition new_TmpFile :: "string \<Rightarrow> string \<Rightarrow> File action" where
  \<comment> \<open>\<open>TmpFile(tmp_dir, tmp_file)\<close> as a step; \<open>work_dir.TmpFile(tmp_file=..., tmp_dir=...)\<close>
      is its older spelling\<close>
  "new_TmpFile tmp_dir tmp_file w = (case TmpFile_init tmp_dir tmp_file [] w of (f, w') \<Rightarrow> (Inr f, w'))"

definition ReconMRtrix_init :: "string \<Rightarrow> string \<Rightarrow> string \<Rightarrow> string \<Rightarrow> string option \<Rightarrow> ReconMRtrix action" where
  \<comment> \<open>\<open>ReconMRtrix.__init__(nii_file, bval, bvec, json_file, log)\<close>. \<open>log\<close> is \<open>Some name\<close> for
      a file name, which is opened, and \<open>None\<close> when the caller hands over its own
      \<open>LogFile\<close> object.\<close>
  "ReconMRtrix_init nii bv be js log =
     bind_w (case log of None \<Rightarrow> return_w () | Some l \<Rightarrow> lift_w (LogFile_init l))
       (\<lambda>_. return_w \<lparr>nii_file = new_NiiFile nii, bval = new_File bv, bvec = new_File be,
                        json_file = new_File js\<rparr>)"

definition nifti_to_mif :: "system \<Rightarrow> ReconMRtrix \<Rightarrow> bool \<Rightarrow> bool \<Rightarrow> File action" where
  \<comment> \<open>\<open>ReconMRtrix.nifti_to_mif(force, gzip)\<close>; \<open>self.json_file\<close> is an object, so the
      \<open>-json_import\<close> option is always given\<close>
  "nifti_to_mif sys self force gzip w =
     (let mif_file = Mif (IOBaseObj_abspath (cwd w) (nii_file self)) gzip
      in bind_w (run_cmd_list sys
                   ([''mrconvert''] @ flag force [''-force'']
                    @ [''-json_import'', src (json_file self), ''-fslgrad'', src (bvec self),
                       src (bval self), src (nii_file self), src mif_file]))
           (\<lambda>_. return_w mif_file) w)"

definition estimate_response :: "system \<Rightarrow> ReconMRtrix \<Rightarrow> File \<Rightarrow> bool \<Rightarrow> (File \<times> File \<times> File) action" where
  \<comment> \<open>\<open>ReconMRtrix.estimate_response(mif, erode, fa_thresh, force)\<close> with the method
      \<open>dhollander\<close>; \<open>erode\<close> and \<open>fa_thresh\<close> are not used\<close>
  "estimate_response sys self mif force w =
     (let wm_res = new_File (stage_name (cwd w) (nii_file self) ''_response_wm.txt'');
          gm_res = new_File (stage_name (cwd w) (nii_file self) ''_response_gm.txt'');
          csf_res = new_File (stage_name (cwd w) (nii_file self) ''_response_csf.txt'')
      in bind_w (run_cmd_list sys
                   ([''dwi2response''] @ flag force [''-force'']
                    @ [''dhollander'', src mif, src wm_res, src gm_res, src csf_res]))
           (\<lambda>_. return_w (wm_res, gm_res, csf_res)) w)"

definition upsample_ext :: "File \<Rightarrow> (bool \<times> string) option" where
  \<comment> \<open>the first lines of \<open>mr_upsample\<close>: whether the output is gzipped and the extension of
      the input, from substring tests; neither \<open>.mif\<close> nor \<open>.nii\<close> leaves \<open>_ext\<close> unbound\<close>
  "upsample_ext mif =
     (if contains (src mif) ''.mif''
      then (if contains (src mif) ''.gz'' then Some (True, ''.mif.gz'') else Some (False, ''.mif''))
      else if contains (src mif) ''.nii''
      then (if contains (src mif) ''.gz'' then Some (True, ''.nii.gz'') else Some (False, ''.nii''))
      else None)"

definition mrresize_cmd :: "File \<Rightarrow> string \<Rightarrow> File \<Rightarrow> string \<Rightarrow> string list" where
  "mrresize_cmd mif vox out interp =
     [''mrresize'', src mif, ''-vox'', vox, src out] @ flag (interp \<noteq> []) [''-interp'', interp]"

definition mrgrid_cmd :: "File \<Rightarrow> string \<Rightarrow> File \<Rightarrow> string \<Rightarrow> string list" where
  "mrgrid_cmd mif vox out interp =
     [''mrgrid'', src mif, ''regrid'', src out, ''-voxel'', vox] @ flag (interp \<noteq> []) [''-interp'', interp]"

definition mr_upsample ::
  "system \<Rightarrow> (string \<Rightarrow> bool) \<Rightarrow> ReconMRtrix \<Rightarrow> File \<Rightarrow> string \<Rightarrow> string \<Rightarrow> File action" where
  \<comment> \<open>\<open>ReconMRtrix.mr_upsample(mif, vox, interp)\<close>: \<open>mrresize\<close> when it is installed,
      otherwise \<open>mrgrid\<close>\<close>
  "mr_upsample sys which self mif vox interp w =
     (case upsample_ext mif of
        None \<Rightarrow> (Inl (NameError ''_ext''), w)
      | Some (gzip, e) \<Rightarrow>
          let (path, filename, _) = File_file_parts (cwd w) mif e;
              upsampled_mif = Mif (os_path_join path ((filename @ ''_upsampled'') @ ''.mif'')) gzip
          in if which ''mrresize''
             then bind_w (run_cmd_list sys (mrresize_cmd mif vox upsampled_mif interp))
                    (\<lambda>_. return_w upsampled_mif) w
             else if which ''mrgrid''
             then bind_w (run_cmd_list sys (mrgrid_cmd mif vox upsampled_mif interp))
                    (\<lambda>_. return_w upsampled_mif) w
             else (Inl (DependencyError ''mrgrid''), w))"

definition create_mask ::
  "system \<Rightarrow> ReconMRtrix \<Rightarrow> File \<Rightarrow> string \<Rightarrow> bool \<Rightarrow> bool \<Rightarrow> (File \<times> File \<times> File) action" where
  \<comment> \<open>\<open>ReconMRtrix.create_mask(mif, frac_int, gzip, cleanup)\<close>; its scratch directory is a
      \<open>TmpDir\<close> of its own beside the image, removed at the end when \<open>cleanup\<close> is set\<close>
  "create_mask sys self mif frac_int gzip0 cleanup w =
     (let (path, _, e0) = File_file_parts (cwd w) (nii_file self) [];
          (_, filename, e) = File_file_parts (cwd w) mif [];
          gzip = (gzip0 \<or> contains (src mif) ''.gz'');
          brain_mif = Mif (os_path_join path ((filename @ ''_brain'') @ e)) gzip;
          mask_mif = Mif (os_path_join path (((filename @ ''_brain'') @ ''_mask'') @ e)) gzip;
          head_mif = Mif (os_path_join path ((filename @ ''_head'') @ e)) gzip
      in bind_w (new_TmpDir path False)
          (\<lambda>work_dir. bind_w (lift_w (WorkDir_mkdir work_dir))
          (\<lambda>_. bind_w (new_TmpFile (src work_dir) (''tmp_B0s'' @ e0))
          (\<lambda>tmp_b0s. bind_w (new_TmpFile (src work_dir) (''tmp_B0'' @ e0))
          (\<lambda>tmp_b0. bind_w (new_TmpFile (src work_dir) ((File_rm_ext tmp_b0 e0 @ ''_brain'') @ e0))
          (\<lambda>tmp_mask. bind_w (run_cmd_list sys [''dwiextract'', ''-bzero'', src mif, src tmp_b0s])
          (\<lambda>_. bind_w (run_cmd_list sys [''fslmaths'', src tmp_b0s, ''-Tmean'', src tmp_b0])
          (\<lambda>_. bind_w (run_cmd_list sys [''bet'', src tmp_b0, src tmp_mask, ''-R'', ''-m'', ''-f'', frac_int])
          (\<lambda>_. bind_w (run_cmd_list sys [''mrconvert'', File_rm_ext tmp_mask e0 @ ''_mask.nii.gz'', src mask_mif])
          (\<lambda>_. bind_w (run_cmd_list sys [''mrconvert'', src tmp_mask, src brain_mif])
          (\<lambda>_. bind_w (run_cmd_list sys [''mrconvert'', src tmp_b0, src head_mif])
          (\<lambda>_. bind_w (when_w cleanup (lift_w (WorkDir_rmdir work_dir False)))
          (\<lambda>_. return_w (mask_mif, brain_mif, head_mif))))))))))))) w)"

definition ss3t_csd ::
  "system \<Rightarrow> ReconMRtrix \<Rightarrow> File \<Rightarrow> File \<Rightarrow> File \<Rightarrow> File \<Rightarrow> File \<Rightarrow> (File \<times> File \<times> File) action" where
  \<comment> \<open>\<open>ReconMRtrix.ss3t_csd(mif, mask, wm_res, gm_res, csf_res)\<close>\<close>
  "ss3t_csd sys self mif maskf wm_res gm_res csf_res w =
     (let (path, _, _) = File_file_parts (cwd w) (nii_file self) [];
          (_, filename, e) = File_file_parts (cwd w) mif [];
          gzip = contains (src mif) ''.gz'';
          wm_fod = Mif (os_path_join path ((filename @ ''_wm_fod'') @ e)) gzip;
          gm_tis = Mif (os_path_join path ((filename @ ''_gm_tis'') @ e)) gzip;
          csf_tis = Mif (os_path_join path ((filename @ ''_csf_tis'') @ e)) gzip
      in bind_w (run_cmd_list sys
                   [''ss3t_csd_beta1'', src mif, src wm_res, src wm_fod, src gm_res, src gm_tis,
                    src csf_res, src csf_tis, ''-mask'', src maskf])
           (\<lambda>_. return_w (wm_fod, gm_tis, csf_tis)) w)"

definition bias_field_correction ::
  "system \<Rightarrow> ReconMRtrix \<Rightarrow> File \<Rightarrow> File \<Rightarrow> File \<Rightarrow> File \<Rightarrow> (File \<times> File \<times> File) action" where
  \<comment> \<open>\<open>ReconMRtrix.bias_field_correction(wm_fod, gm_tis, csf_tis, mask)\<close>\<close>
  "bias_field_correction sys self wm_fod gm_tis csf_tis maskf w =
     (let gzip = contains (src wm_fod) ''.gz'';
          e = (if gzip then ''.mif.gz'' else ''.mif'');
          wm_fod_norm = Mif (stage_name (cwd w) (nii_file self) (''_wm_fod_norm'' @ e)) gzip;
          gm_tis_norm = Mif (stage_name (cwd w) (nii_file self) (''_gm_tis_norm'' @ e)) gzip;
          csf_tis_norm = Mif (stage_name (cwd w) (nii_file self) (''_csf_tis_norm'' @ e)) gzip
      in bind_w (run_cmd_list sys
                   [''mtnormalise'', src wm_fod, src wm_fod_norm, src gm_tis, src gm_tis_norm,
                    src csf_tis, src csf_tis_norm, ''-mask'', src maskf])
           (\<lambda>_. return_w (wm_fod_norm, gm_tis_norm, csf_tis_norm)) w)"

definition compute_dec_map ::
  "system \<Rightarrow> string \<Rightarrow> ReconMRtrix \<Rightarrow> File \<Rightarrow> File \<Rightarrow> File \<Rightarrow> File \<Rightarrow> (File \<times> File) action" where
  \<comment> \<open>\<open>ReconMRtrix.compute_dec_map(wm_fod, gm_tis, csf_tis, mask)\<close>; \<open>scripts_dir\<close> is the
      directory of the script\<close>
  "compute_dec_map sys scripts_dir self wm_fod gm_tis csf_tis maskf w =
     (let gzip = contains (src wm_fod) ''.gz'';
          e = (if gzip then ''.mif.gz'' else ''.mif'');
          dec = Mif (stage_name (cwd w) (nii_file self) (''_dec'' @ e)) gzip;
          vf = Mif (stage_name (cwd w) (nii_file self) (''_vf'' @ e)) gzip
      in bind_w (run_cmd_list sys [''fod2dec'', src wm_fod, src dec, ''-mask'', src maskf])
          (\<lambda>_. bind_w (run_cmd_list sys
                   [os_path_join scripts_dir ''dwi_extra.sh'', ''--wm-fod'', src wm_fod, ''--gm'',
                    src gm_tis, ''--csf'', src csf_tis, ''--out-vf'', src vf])
          (\<lambda>_. return_w (dec, vf))) w)"

datatype pynum = PyInt int | PyFloat int string

fun num_int :: "pynum \<Rightarrow> int" where
  \<comment> \<open>\<open>int(x)\<close>\<close>
  "num_int (PyInt i) = i"
| "num_int (PyFloat i r) = i"

fun num_str :: "pynum \<Rightarrow> string" where
  \<comment> \<open>\<open>f"{x}"\<close>; a float comes with its printed form\<close>
  "num_str (PyInt i) = str_int i"
| "num_str (PyFloat i r) = r"

definition mr_tck_global :: "system \<Rightarrow> ReconMRtrix \<Rightarrow> File \<Rightarrow> File \<Rightarrow> pynum \<Rightarrow> string \<Rightarrow> File action" where
  \<comment> \<open>\<open>ReconMRtrix.mr_tck_global(wm_fod, mask, stream_lines, cutoff)\<close>\<close>
  "mr_tck_global sys self wm_fod maskf stream_lines cutoff w =
     (let tck = new_File (stage_name (cwd w) (nii_file self)
                  ((''.'' @ str_int (num_int stream_lines) @ ''.streamlines'') @ ''.tck''))
      in bind_w (run_cmd_list sys
                   [''tckgen'', src wm_fod, src tck, ''-seed_image'', src maskf, ''-select'',
                    num_str stream_lines, ''-cutoff'', cutoff])
           (\<lambda>_. return_w tck) w)"

definition mr_tck_sift :: "system \<Rightarrow> ReconMRtrix \<Rightarrow> File \<Rightarrow> File \<Rightarrow> int option \<Rightarrow> File \<Rightarrow> File action" where
  \<comment> \<open>\<open>ReconMRtrix.mr_tck_sift(tck, wm_fod, term, mask)\<close>; a \<open>term\<close> of 0 counts as none\<close>
  "mr_tck_sift sys self tck wm_fod term maskf w =
     (let given = (case term of None \<Rightarrow> False | Some t \<Rightarrow> t \<noteq> 0);
          tck_filt = new_File (stage_name (cwd w) (nii_file self)
                       (if given then (''.'' @ str_int (the term) @ ''.streamlines.filtered'') @ ''.tck''
                        else ''.streamlines.filtered'' @ ''.tck''))
      in bind_w (run_cmd_list sys
                   ([''tcksift'', src tck, src wm_fod, src tck_filt, ''-proc_mask'', src maskf]
                    @ flag given [''-term_number'', str_int (the term)]))
           (\<lambda>_. return_w tck_filt) w)"


section \<open>\<open>xfm_tck.py\<close>: \<open>DWIxfm\<close>\<close>

record DWIxfm =
  dwi_file :: File
  dwi_bval :: File
  dwi_bvec :: File
  dwi_json :: File
  template :: File
  template_brain :: File
  labels :: File

definition new_DWIxfm ::
  "string \<Rightarrow> string \<Rightarrow> string \<Rightarrow> string \<Rightarrow> string \<Rightarrow> string \<Rightarrow> string \<Rightarrow> DWIxfm" where
  \<comment> \<open>the file objects that \<open>DWIxfm.__init__\<close> makes of its arguments\<close>
  "new_DWIxfm dwi bv be tmpl tmpl_brain lbls js =
     \<lparr>dwi_file = new_NiiFile dwi, dwi_bval = new_File bv, dwi_bvec = new_File be,
      dwi_json = new_File js, template = new_NiiFile tmpl,
      template_brain = new_NiiFile tmpl_brain, labels = new_NiiFile lbls\<rparr>"

definition DWIxfm_init ::
  "string \<Rightarrow> string \<Rightarrow> string \<Rightarrow> string \<Rightarrow> string \<Rightarrow> string \<Rightarrow> string \<Rightarrow> string \<Rightarrow> DWIxfm action" where
  \<comment> \<open>\<open>DWIxfm.__init__(dwi_file, dwi_bval, dwi_bvec, template, template_brain, labels, log,
      dwi_json)\<close>: the log file is opened\<close>
  "DWIxfm_init dwi bv be tmpl tmpl_brain lbls log js =
     bind_w (lift_w (LogFile_init log))
       (\<lambda>_. return_w (new_DWIxfm dwi bv be tmpl tmpl_brain lbls js))"

definition mask_dwi_names :: "string \<Rightarrow> DWIxfm \<Rightarrow> File \<times> File \<times> File" where
  \<comment> \<open>the outputs of \<open>mask_dwi\<close>: mask, brain and head, beside the DWI file\<close>
  "mask_dwi_names wd self =
     (new_NiiFile (sibling_path wd (dwi_file self) ''_brain_mask''),
      new_NiiFile (sibling_path wd (dwi_file self) ''_brain''),
      new_NiiFile (sibling_path wd (dwi_file self) ''_head''))"

definition mask_dwi :: "system \<Rightarrow> DWIxfm \<Rightarrow> string \<Rightarrow> (File \<times> File \<times> File) action" where
  \<comment> \<open>\<open>DWIxfm.mask_dwi(frac_int)\<close>\<close>
  "mask_dwi sys self frac_int w =
     (let (maskn, brain, head) = mask_dwi_names (cwd w) self
      in bind_w (ReconMRtrix_init (src (dwi_file self)) (src (dwi_bval self)) (src (dwi_bvec self))
                   (src (dwi_json self)) None)
          (\<lambda>dwi. bind_w (nifti_to_mif sys dwi False False)
          (\<lambda>mif_file. bind_w (create_mask sys dwi mif_file frac_int False True)
          (\<lambda>(mask_mif, brain_mif, head_mif).
                 bind_w (run_cmd_list sys [''mrconvert'', src mask_mif, src maskn])
          (\<lambda>_. bind_w (run_cmd_list sys [''mrconvert'', src brain_mif, src brain])
          (\<lambda>_. bind_w (run_cmd_list sys [''mrconvert'', src head_mif, src head])
          (\<lambda>_. bind_w (os_remove (src mask_mif))
          (\<lambda>_. bind_w (os_remove (src brain_mif))
          (\<lambda>_. bind_w (os_remove (src head_mif))
          (\<lambda>_. return_w (maskn, brain, head)))))))))) w)"

definition flirt_cmd :: "string \<Rightarrow> DWIxfm \<Rightarrow> File \<Rightarrow> File \<Rightarrow> File \<Rightarrow> string list" where
  \<comment> \<open>the command line of \<open>compute_linear_xfm\<close>: it has no degrees-of-freedom option\<close>
  "flirt_cmd wd self dwi_brain xfm_mat xfm_out =
     [''flirt'', ''-in'', IOBaseObj_abspath wd (template_brain self),
      ''-ref'', IOBaseObj_abspath wd dwi_brain, ''-omat'', src xfm_mat, ''-out'', src xfm_out]"

definition linear_xfm_names :: "string \<Rightarrow> DWIxfm \<Rightarrow> int \<Rightarrow> File \<times> File" where
  \<comment> \<open>the outputs of \<open>compute_linear_xfm\<close>: the only use of \<open>dof\<close>\<close>
  "linear_xfm_names wd self dof =
     (new_File (stage_name wd (dwi_file self) ((''.lin_xfm_'' @ str_int dof @ ''_dof'') @ ''.mat'')),
      new_NiiFile (sibling_path wd (dwi_file self) (''.lin_xfm_'' @ str_int dof @ ''_dof'')))"

definition compute_linear_xfm :: "system \<Rightarrow> DWIxfm \<Rightarrow> File \<Rightarrow> int \<Rightarrow> (File \<times> File) action" where
  \<comment> \<open>\<open>DWIxfm.compute_linear_xfm(dwi_brain, dof)\<close>\<close>
  "compute_linear_xfm sys self dwi_brain dof w =
     (let (xfm_mat, xfm_out) = linear_xfm_names (cwd w) self dof
      in bind_w (run_cmd_list sys (flirt_cmd (cwd w) self dwi_brain xfm_mat xfm_out))
           (\<lambda>_. return_w (xfm_mat, xfm_out)) w)"

definition fnirt_cmd :: "string \<Rightarrow> DWIxfm \<Rightarrow> File \<Rightarrow> File \<Rightarrow> File \<Rightarrow> File \<Rightarrow> File \<Rightarrow> string list" where
  "fnirt_cmd wd self xfm_mat dwi_head nl_out nl_warp nl_wpcf =
     [''fnirt'', ''--in='' @ IOBaseObj_abspath wd (template self),
      ''--ref='' @ IOBaseObj_abspath wd dwi_head, ''--aff='' @ src xfm_mat,
      ''--iout='' @ src nl_out, ''--fout='' @ src nl_warp, ''--cout='' @ src nl_wpcf]"

definition compute_non_linear_xfm :: "system \<Rightarrow> DWIxfm \<Rightarrow> File \<Rightarrow> File \<Rightarrow> (File \<times> File \<times> File) action" where
  \<comment> \<open>\<open>DWIxfm.compute_non_linear_xfm(xfm_mat, dwi_head)\<close>\<close>
  "compute_non_linear_xfm sys self xfm_mat dwi_head w =
     (let nl_out = new_NiiFile (sibling_path (cwd w) (dwi_file self) ''.non-lin_xfm'');
          nl_warp = new_NiiFile (sibling_path (cwd w) (dwi_file self) ''.non-lin_xfm.warp_field'');
          nl_wpcf = new_NiiFile (sibling_path (cwd w) (dwi_file self) ''.non-lin_xfm.warp_field_coeff'')
      in bind_w (run_cmd_list sys (fnirt_cmd (cwd w) self xfm_mat dwi_head nl_out nl_warp nl_wpcf))
           (\<lambda>_. return_w (nl_out, nl_warp, nl_wpcf)) w)"

definition applywarp_cmd ::
  "string \<Rightarrow> DWIxfm \<Rightarrow> File \<Rightarrow> File \<Rightarrow> File \<Rightarrow> string \<Rightarrow> bool \<Rightarrow> File option \<Rightarrow> string list" where
  "applywarp_cmd wd self dwi_head non_lin_warp out interp rel premat =
     [''applywarp'', ''--in='' @ IOBaseObj_abspath wd (labels self),
      ''--ref='' @ IOBaseObj_abspath wd dwi_head, ''--warp='' @ IOBaseObj_abspath wd non_lin_warp,
      ''--out='' @ src out]
     @ (case premat of None \<Rightarrow> [] | Some p \<Rightarrow> [''--premat='' @ IOBaseObj_abspath wd p])
     @ flag (interp \<noteq> []) [''--interp='' @ interp]
     @ [if rel then ''--rel'' else ''--abs'']"

definition applywarp ::
  "system \<Rightarrow> DWIxfm \<Rightarrow> File \<Rightarrow> File \<Rightarrow> string \<Rightarrow> bool \<Rightarrow> File option \<Rightarrow> File action" where
  \<comment> \<open>\<open>DWIxfm.applywarp(dwi_head, non_lin_warp, interp, rel, premat)\<close>: warps the labels\<close>
  "applywarp sys self dwi_head non_lin_warp interp rel premat w =
     (let out = new_NiiFile (sibling_path (cwd w) (dwi_file self) ''.labels.non-linear'')
      in bind_w (run_cmd_list sys (applywarp_cmd (cwd w) self dwi_head non_lin_warp out interp rel premat))
           (\<lambda>_. return_w out) w)"


section \<open>\<open>xfm_tck.py\<close>: the two workflows\<close>

definition shutil_copy :: "string \<Rightarrow> string \<Rightarrow> unit action" where
  \<comment> \<open>\<open>shutil.copy(src, dst)\<close> to a file name\<close>
  "shutil_copy s d w =
     (let a = os_path_abspath (cwd w) s; b = os_path_abspath (cwd w) d in
      if s = [] \<or> files w a = None then (Inl (FileNotFoundError s), w)
      else if files w a = Some Directory then (Inl (IsADirectoryError s), w)
      else if files w b = Some Directory
        then (Inr (), w\<lparr>files := (files w)(os_path_join b (os_path_basename a) \<mapsto> RegFile)\<rparr>)
      else if d = [] \<or> files w (os_path_dirname b) \<noteq> Some Directory
        then (Inl (FileNotFoundError d), w)
      else (Inr (), w\<lparr>files := (files w)(b \<mapsto> RegFile)\<rparr>))"

definition truthy :: "string option \<Rightarrow> bool" where
  \<comment> \<open>\<open>if x:\<close> for an optional string\<close>
  "truthy x = (case x of None \<Rightarrow> False | Some s \<Rightarrow> s \<noteq> [])"

definition stage_inputs ::
  "string \<Rightarrow> string \<Rightarrow> string \<Rightarrow> string option \<Rightarrow> string option \<Rightarrow> bool
     \<Rightarrow> (WorkDir \<times> File \<times> File \<times> File \<times> File option) action" where
  \<comment> \<open>the first statements of both workflows: a new \<open>TmpDir\<close> under the working directory
      (\<open>work.tmp\<close> under the current directory when none is given), made at once, and the
      inputs copied into it under their base names. \<open>mk_tmp_dir()\<close> is the older name of
      \<open>mkdir()\<close>.\<close>
  "stage_inputs dwi bv be js work_dir use_cwd =
     (let (wdir, ucwd) = (if truthy work_dir then (the work_dir, use_cwd) else (''work.tmp'', True))
      in bind_w (new_TmpDir wdir ucwd)
          (\<lambda>work_tmp. bind_w (lift_w (WorkDir_mkdir work_tmp))
          (\<lambda>_. bind_w (new_TmpFile (src work_tmp) (os_path_basename dwi))
          (\<lambda>f_tmp. bind_w (new_TmpFile (src work_tmp) (os_path_basename bv))
          (\<lambda>b_tmp. bind_w (new_TmpFile (src work_tmp) (os_path_basename be))
          (\<lambda>e_tmp. bind_w (shutil_copy dwi (src f_tmp))
          (\<lambda>_. bind_w (shutil_copy bv (src b_tmp))
          (\<lambda>_. bind_w (shutil_copy be (src e_tmp))
          (\<lambda>_. if truthy js
                 then bind_w (new_TmpFile (src work_tmp) (os_path_basename (the js)))
                       (\<lambda>j_tmp. bind_w (shutil_copy (the js) (src j_tmp))
                       (\<lambda>_. return_w (work_tmp, f_tmp, b_tmp, e_tmp, Some j_tmp)))
                 else return_w (work_tmp, f_tmp, b_tmp, e_tmp, None))))))))))"

definition compute_xfm ::
  "system \<Rightarrow> string \<Rightarrow> string \<Rightarrow> string \<Rightarrow> string \<Rightarrow> string \<Rightarrow> string \<Rightarrow> string option \<Rightarrow> string
     \<Rightarrow> string option \<Rightarrow> bool \<Rightarrow> int \<Rightarrow> string \<Rightarrow> (File \<times> File) action" where
  \<comment> \<open>\<open>compute_xfm(dwi, bval, bvec, template, template_brain, labels, json, log, work_dir,
      use_cwd, dof, frac_int)\<close>. Without a \<open>json\<close> the name \<open>j_tmp\<close> is unbound where it is
      read. The linear step is called with the literal 12, not with \<open>dof\<close>.\<close>
  "compute_xfm sys dwi bv be tmpl tmpl_brain lbls js log work_dir use_cwd dof frac_int =
     bind_w (stage_inputs dwi bv be js work_dir use_cwd)
       (\<lambda>(work_tmp, f_tmp, b_tmp, e_tmp, j_tmp).
          case j_tmp of
            None \<Rightarrow> raise_w (NameError ''j_tmp'')
          | Some j \<Rightarrow>
              bind_w (DWIxfm_init (src f_tmp) (src b_tmp) (src e_tmp) tmpl tmpl_brain lbls log (src j))
              (\<lambda>d. bind_w (mask_dwi sys d frac_int)
              (\<lambda>(maskn, brain, head). bind_w (compute_linear_xfm sys d brain 12)
              (\<lambda>(xfm_mat, xfm_out). bind_w (compute_non_linear_xfm sys d xfm_mat head)
              (\<lambda>(nl_out, nl_warp, nl_wpcf). bind_w (applywarp sys d head nl_warp ''nn'' True None)
              (\<lambda>labels_native. return_w (labels_native, nl_out)))))))"

record options =
  opt_force :: bool
  opt_gzip :: bool
  opt_vox :: string
  opt_dof :: int
  opt_frac_int :: string
  opt_stream_lines :: pynum
  opt_cutoff :: string
  opt_filter_tracts :: bool
  opt_term :: "int option"
  opt_symmetric :: bool
  opt_zero_diagonal :: bool
  opt_fa :: bool
  opt_md :: bool
  opt_ad :: bool
  opt_rd :: bool
  opt_cleanup :: bool

record outputs =
  out_connectomes :: connectomes
  labels_native :: File
  head :: File
  work_tmp :: WorkDir

definition create_structural_connectome ::
  "system \<Rightarrow> (string \<Rightarrow> bool) \<Rightarrow> string \<Rightarrow> string \<Rightarrow> string \<Rightarrow> string \<Rightarrow> string \<Rightarrow> string \<Rightarrow> string
     \<Rightarrow> string option \<Rightarrow> string \<Rightarrow> string option \<Rightarrow> bool \<Rightarrow> options \<Rightarrow> outputs action" where
  \<comment> \<open>\<open>create_structural_connectome(dwi, bval, bvec, template, template_brain, labels, json,
      log, work_dir, use_cwd, ...)\<close>; the remaining arguments are the record \<open>options\<close>
      (\<open>erode\<close> and \<open>fa_thresh\<close> reach no command line). Without a \<open>json\<close>, \<open>j_tmp\<close> is \<open>None\<close>
      and \<open>j_tmp.file\<close> raises.\<close>
  "create_structural_connectome sys which scripts_dir dwi bv be tmpl tmpl_brain lbls js log work_dir
       use_cwd opts =
     bind_w (stage_inputs dwi bv be js work_dir use_cwd)
       (\<lambda>(wtmp, f_tmp, b_tmp, e_tmp, j_tmp).
          case j_tmp of
            None \<Rightarrow> raise_w (AttributeError ''file'')
          | Some j \<Rightarrow>
              bind_w (compute_xfm sys (src f_tmp) (src b_tmp) (src e_tmp) tmpl tmpl_brain lbls
                        (Some (src j)) log
                        (if truthy work_dir then work_dir else Some ''work.tmp'')
                        (if truthy work_dir then use_cwd else True)
                        (opt_dof opts) (opt_frac_int opts))
              (\<lambda>(lbl_native, non_lin_out).
                 bind_w (ReconMRtrix_init (src f_tmp) (src b_tmp) (src e_tmp) (src j) (Some log))
              (\<lambda>mr_diff. bind_w (nifti_to_mif sys mr_diff (opt_force opts) (opt_gzip opts))
              (\<lambda>dwi_miff. bind_w (estimate_response sys mr_diff dwi_miff (opt_force opts))
              (\<lambda>(wm_res, gm_res, csf_res).
                 bind_w (mr_upsample sys which mr_diff dwi_miff (opt_vox opts) ''cubic'')
              (\<lambda>up_dwi_mif. bind_w (mr_upsample sys which mr_diff lbl_native (opt_vox opts) ''nearest'')
              (\<lambda>up_labels_native.
                 bind_w (create_mask sys mr_diff up_dwi_mif (opt_frac_int opts) False True)
              (\<lambda>(maskm, brain, headm).
                 bind_w (ss3t_csd sys mr_diff up_dwi_mif maskm wm_res gm_res csf_res)
              (\<lambda>(wm_fod, gm, csf). bind_w (bias_field_correction sys mr_diff wm_fod gm csf maskm)
              (\<lambda>(wm_fod_norm, gm_norm, csf_norm).
                 bind_w (compute_dec_map sys scripts_dir mr_diff wm_fod_norm gm_norm csf_norm maskm)
              (\<lambda>_. bind_w (if opt_filter_tracts opts
                             then bind_w (mr_tck_global sys mr_diff wm_fod_norm maskm
                                            (opt_stream_lines opts) (opt_cutoff opts))
                                    (\<lambda>tmp_tcks. mr_tck_sift sys mr_diff tmp_tcks wm_fod_norm
                                                   (opt_term opts) maskm)
                             else mr_tck_global sys mr_diff wm_fod_norm maskm
                                    (opt_stream_lines opts) (opt_cutoff opts))
              (\<lambda>tcks. bind_w (structural_connectome sys mr_diff tcks up_labels_native
                                 (Some up_dwi_mif) (Some maskm) (opt_symmetric opts) (opt_zero_diagonal opts)
                                 (opt_fa opts) (opt_md opts) (opt_ad opts) (opt_rd opts) (opt_cleanup opts) (opt_force opts))
              (\<lambda>cons. return_w \<lparr>out_connectomes = cons, labels_native = lbl_native,
                                  head = headm, work_tmp = wtmp\<rparr>)))))))))))))"


definition running_msg :: "string list \<Rightarrow> string" where
  "running_msg l = ''Running:'' @ [CHR 0x09] @ join_words l"

definition spawned :: "string list \<Rightarrow> int \<Rightarrow> filesys \<Rightarrow> world \<Rightarrow> world" where
  "spawned l rc fs' w =
     (log_call Info (running_msg l) w)\<lparr>files := fs', events := events w @ [Spawn (join_words l) (environ w) rc]\<rparr>"

definition steady :: "world \<Rightarrow> (error + 'a) \<times> world \<Rightarrow> bool" where
  \<comment> \<open>a step leaves the working directory and the environment alone and only adds to the
      trace\<close>
  "steady w p = (cwd (snd p) = cwd w \<and> environ (snd p) = environ w \<and>
                 (\<exists>es. events (snd p) = events w @ es))"

definition stops_at_failure :: "world \<Rightarrow> (error + 'a) \<times> world \<Rightarrow> bool" where
  "stops_at_failure w p =
     (\<exists>es. events (snd p) = events w @ es \<and>
        (\<forall>i c en rc. i < length es \<and> es ! i = Spawn c en rc \<and> rc \<noteq> 0 \<longrightarrow>
           i = length es - 1 \<and>
           fst p = Inl (RuntimeError ([CHR 0x0A] @ failed_msg c rc @ [CHR 0x0A])) \<and>
           logged (snd p) \<noteq> [] \<and> last (logged (snd p)) = (Error, failed_msg c rc)))"


section \<open>Concrete inputs\<close>


definition world0 :: world where
  "world0 = \<lparr>cwd = ''/out'', environ = Map.empty,
             files = [''/'' \<mapsto> Directory, ''/out'' \<mapsto> Directory],
             logged = [], events = [], rand = (\<lambda>i. 42 + i), drawn = 0\<rparr>"





text \<open>
  A temporary directory \<open>/out/tmp_dir_42\<close>, the process after the directory was made, a
  block that raises, and a workspace object whose directory was never made.
\<close>

definition tmpd0 :: WorkDir where
  "tmpd0 = \<lparr>src = ''/out/tmp_dir_42'', parent_dir = ''/out''\<rparr>"

definition world_entered :: world where
  "world_entered = world0\<lparr>drawn := Suc 0,
     files := [''/'' \<mapsto> Directory, ''/out'' \<mapsto> Directory, ''/out/tmp_dir_42'' \<mapsto> Directory]\<rparr>"


definition never_made :: WorkDir where
  "never_made = \<lparr>src = ''/out/work.tmp/tmp_dir_7'', parent_dir = ''/out/work.tmp''\<rparr>"


definition sampling_writes :: "string \<Rightarrow> system" where
  "sampling_writes p c sh e fs =
     Some (0, [], [], if startswith c ''tcksample'' then fs(p \<mapsto> RegFile) else fs)"


definition tck0 :: File where "tck0 = new_File ''/out/a.tck''"

definition labels0 :: File where "labels0 = Mif ''/out/l.nii'' False"

definition dwi0 :: File where "dwi0 = Mif ''/out/a.nii'' False"

definition recon_gz :: ReconMRtrix where
  \<comment> \<open>a NIFTI file in a directory whose name contains \<open>.gz\<close>\<close>
  "recon_gz = \<lparr>nii_file = new_NiiFile ''/d.gz/a.nii'', bval = new_File ''/d.gz/a.bval'',
                bvec = new_File ''/d.gz/a.bvec'', json_file = new_File ''/d.gz/a.json''\<rparr>"

definition world_gz :: world where
  "world_gz = world0\<lparr>files := [''/'' \<mapsto> Directory, ''/out'' \<mapsto> Directory, ''/d.gz'' \<mapsto> Directory]\<rparr>"



section \<open>Properties of \<open>NiiFile\<close>\<close>

text \<open>
  C9. A path that ends neither in \<open>.nii\<close> nor in \<open>.nii.gz\<close> is rewritten by the
  \<open>NiiFile\<close> constructor: with the default arguments the constructor returns an object, and
  whenever it returns one (whatever the flags), the stored path is the given path with
  \<open>.nii.gz\<close> appended, the extension field is \<open>.nii.gz\<close>, and the stored path differs from
  the path supplied.
\<close>

theorem NiiFile_init_appends_ext:
  assumes "\<not> endswith s ''.nii''" and "\<not> endswith s ''.nii.gz''"
  shows "(\<exists>f. NiiFile_init wd fs loads s False False = Inr f) \<and>
         (\<forall>f. NiiFile_init wd fs loads s ae vn = Inr f \<longrightarrow>
              src f = s @ ''.nii.gz'' \<and> ext f = ''.nii.gz'' \<and> src f \<noteq> s)"
  using assms
  by (auto simp: NiiFile_init_def File_init_def Let_def split: if_splits)

theorem NiiFile_init_appends_ext_witness:
  "\<not> endswith ''scan.img'' ''.nii'' \<and> \<not> endswith ''scan.img'' ''.nii.gz'' \<and>
   NiiFile_init ''/w'' Map.empty (\<lambda>p. True) ''scan.img'' False False
     = Inr \<lparr>src = ''scan.img.nii.gz'', ext = ''.nii.gz''\<rparr>"
proof -
  have a: "\<not> endswith ''scan.img'' ''.nii''" by (simp add: endswith_def)
  have b: "\<not> endswith ''scan.img'' ''.nii.gz''" by (simp add: endswith_def)
  from NiiFile_init_appends_ext [OF a b, of "''/w''" Map.empty "\<lambda>p. True" False False]
  obtain f where f: "NiiFile_init ''/w'' Map.empty (\<lambda>p. True) ''scan.img'' False False = Inr f"
    and g: "src f = ''scan.img'' @ ''.nii.gz''" "ext f = ''.nii.gz''"
    by blast
  from g have "f = \<lparr>src = ''scan.img.nii.gz'', ext = ''.nii.gz''\<rparr>" by simp
  with a b f show ?thesis by simp
qed


section \<open>Properties of \<open>Command.run\<close>\<close>

lemma merge_env_frame [simp]:
  "cwd (merge_env c w) = cwd w" "files (merge_env c w) = files w"
  "logged (merge_env c w) = logged w" "events (merge_env c w) = events w"
  by (simp_all add: merge_env_def split: option.splits)

lemma log_call_frame [simp]:
  "cwd (log_call l m w) = cwd w" "files (log_call l m w) = files w"
  "environ (log_call l m w) = environ w" "events (log_call l m w) = events w"
  "logged (log_call l m w) = logged w @ [(l, m)]"
  by (simp_all add: log_call_def)

lemma merge_env_log_call [simp]: "environ (merge_env c (log_call l m w)) = environ (merge_env c w)"
  by (simp add: merge_env_def log_call_def split: option.splits)


lemma open_append_Inr: "open_fault (cwd w) (files w) p = None \<Longrightarrow> \<exists>w'. open_append p w = Inr w'"
  by (simp add: open_append_def)




lemma check_status_frame [simp]:
  "cwd (snd (check_status c sink r rc outs w)) = cwd w"
  "environ (snd (check_status c sink r rc outs w)) = environ w"
  "events (snd (check_status c sink r rc outs w)) = events w"
  by (simp_all add: check_status_def Let_def)





lemma world0_sel:
  "cwd world0 = ''/out''" "environ world0 = Map.empty"
  "files world0 = [''/'' \<mapsto> Directory, ''/out'' \<mapsto> Directory]"
  "logged world0 = []" "events world0 = []" "rand world0 = (\<lambda>i. 42 + i)" "drawn world0 = 0"
  by (simp_all add: world0_def)













section \<open>Properties of \<open>WorkDir\<close> and \<open>TmpDir\<close>\<close>

lemma is_under_refl [simp]: "is_under a a"
  by (simp add: is_under_def)

lemma shutil_rmtree_ignore: "\<exists>w'. shutil_rmtree p True w = Inr w'"
  by (simp add: shutil_rmtree_def Let_def)

text \<open>
  C7. \<open>WorkDir.rmdir\<close> never raises: called twice in a row, both calls return, and so does
  a call on a workspace whose directory was never made. The second call changes nothing
  when \<open>rm_parent\<close> is off or the directory lies below its parent, and a call where
  neither the directory nor its parent exists changes nothing.
\<close>

theorem WorkDir_rmdir_idempotent:
  "\<exists>w1 w2. WorkDir_rmdir d rp w = Inr w1 \<and> WorkDir_rmdir d rp w1 = Inr w2 \<and>
     (\<not> rp \<or> is_under (os_path_abspath (cwd w) (parent_dir d)) (os_path_abspath (cwd w) (src d))
        \<longrightarrow> w2 = w1) \<and>
     (\<not> os_path_exists (cwd w) (files w) (src d) \<and>
      \<not> os_path_exists (cwd w) (files w) (parent_dir d) \<longrightarrow> w1 = w)"
  by (auto simp: WorkDir_rmdir_def shutil_rmtree_def os_path_exists_def Let_def)














lemma abspath_never_made:
  "os_path_abspath ''/out'' ''/out/work.tmp/tmp_dir_7'' = ''/out/work.tmp/tmp_dir_7''"
  "os_path_abspath ''/out'' ''/out/work.tmp'' = ''/out/work.tmp''"
  by (simp_all add: os_path_abspath_def os_path_normpath_def os_path_join_def startswith_def endswith_def)


theorem WorkDir_rmdir_idempotent_witness:
  "(\<exists>w1. WorkDir_rmdir tmpd0 False world_entered = Inr w1 \<and> WorkDir_rmdir tmpd0 False w1 = Inr w1) \<and>
   WorkDir_rmdir never_made True world0 = Inr world0"
proof -
  from WorkDir_rmdir_idempotent [of tmpd0 False world_entered]
  have a: "\<exists>w1. WorkDir_rmdir tmpd0 False world_entered = Inr w1 \<and> WorkDir_rmdir tmpd0 False w1 = Inr w1"
    by auto
  have n: "\<not> os_path_exists (cwd world0) (files world0) (src never_made)"
          "\<not> os_path_exists (cwd world0) (files world0) (parent_dir never_made)"
    by (simp_all add: os_path_exists_def world0_sel never_made_def abspath_never_made)
  from WorkDir_rmdir_idempotent [of never_made True world0] n
  have "WorkDir_rmdir never_made True world0 = Inr world0" by auto
  with a show ?thesis by simp
qed


section \<open>Properties of \<open>File.file_parts\<close>\<close>

lemma endswith_iff: "endswith s suf \<longleftrightarrow> (\<exists>p. s = p @ suf)"
proof
  assume "endswith s suf"
  then have "s = take (length s - length suf) s @ suf"
    by (metis append_take_drop_id endswith_def)
  then show "\<exists>p. s = p @ suf" ..
next
  assume "\<exists>p. s = p @ suf"
  then show "endswith s suf" by (auto simp: endswith_def)
qed

lemma endswith_append [simp]: "endswith (p @ suf) suf"
  by (auto simp: endswith_iff)

lemma os_path_join_endswith: "endswith b t \<Longrightarrow> endswith (os_path_join a b) t"
  by (auto simp: os_path_join_def endswith_iff)

lemma last_chars_append: "length e = n \<Longrightarrow> last_chars n (p @ e) = e"
  by (simp add: last_chars_def)

lemma File_init_gz_ext:
  assumes "e = ''.nii.gz'' \<or> e = ''.mif.gz''" and "endswith s e"
  shows "File_init wd fs s [] False = Inr \<lparr>src = s, ext = e\<rparr>"
proof -
  from assms(2) obtain p where s: "s = p @ e" by (auto simp: endswith_iff)
  have gz: "endswith s ''.gz''"
    using assms(1) s by (auto simp: endswith_iff)
  have "last_chars 7 s = e" using assms(1) s by (auto simp: last_chars_def)
  with gz show ?thesis by (simp add: File_init_def)
qed


lemma os_path_split_slash:
  assumes "CHR ''/'' \<notin> set b" and "d = [] \<or> last d \<noteq> CHR ''/''"
  shows "os_path_split (d @ ''/'' @ b) = (if d = [] then ''/'' else d, b)"
proof -
  have r: "rev (d @ ''/'' @ b) = rev b @ CHR ''/'' # rev d" by simp
  have t: "takeWhile (\<lambda>c. c \<noteq> CHR ''/'') (rev (d @ ''/'' @ b)) = rev b"
    unfolding r using assms(1) by (subst takeWhile_tail) auto
  have h: "take (length (d @ ''/'' @ b) - length b) (d @ ''/'' @ b) = d @ ''/''" by simp
  show ?thesis
  proof (cases "d = []")
    case True
    then show ?thesis unfolding os_path_split_def t Let_def by simp
  next
    case False
    with assms(2) have l: "last d \<noteq> CHR ''/''" by simp
    from False l have "hd (rev d) \<noteq> CHR ''/''" by (simp add: hd_rev)
    with False have dw: "dropWhile (\<lambda>c. c = CHR ''/'') (rev d) = rev d"
      by (cases "rev d") auto
    from False l have ns: "\<not> (\<forall>c \<in> set (d @ ''/''). c = CHR ''/'')"
      using last_in_set by fastforce
    show ?thesis unfolding os_path_split_def t Let_def using False ns dw by simp
  qed
qed

lemma os_path_splitext_nodot: "CHR ''.'' \<notin> set b \<Longrightarrow> CHR ''/'' \<notin> set b \<Longrightarrow> os_path_splitext b = (b, [])"
proof -
  assume d: "CHR ''.'' \<notin> set b" and s: "CHR ''/'' \<notin> set b"
  have tw: "takeWhile (\<lambda>c. c \<noteq> CHR ''/'') (rev b) = rev b"
    using s by (auto simp: takeWhile_eq_all_conv)
  show ?thesis unfolding os_path_splitext_def Let_def tw using d by simp
qed

lemma File_file_parts_ext:
  "ext f \<noteq> [] \<Longrightarrow> snd (snd (File_file_parts wd f [])) = ext f"
  by (simp add: File_file_parts_def Let_def split_beta)

lemma sibling_path_endswith:
  "ext f \<noteq> [] \<Longrightarrow> endswith (sibling_path wd f suffix) (suffix @ ext f)"
  by (auto simp: sibling_path_def File_file_parts_def Let_def split_beta endswith_iff
      intro!: os_path_join_endswith [unfolded endswith_iff])

lemma endswith_trans: "endswith s (a @ b) \<Longrightarrow> endswith s b"
  by (auto simp: endswith_iff)

lemma sibling_path_plain:
  assumes "ext f = e" and "e \<noteq> []" and "src f = d @ ''/'' @ stem @ e"
      and "os_path_abspath wd (src f) = src f"
      and "CHR ''/'' \<notin> set stem" and "CHR ''.'' \<notin> set stem" and "stem \<noteq> []"
      and "CHR ''/'' \<notin> set e" and "d = [] \<or> last d \<noteq> CHR ''/''"
  shows "sibling_path wd f suffix = d @ ''/'' @ stem @ suffix @ e"
proof -
  have sp: "os_path_split (d @ ''/'' @ stem @ e) = (if d = [] then ''/'' else d, stem @ e)"
    using assms(5,8,9) by (intro os_path_split_slash) auto
  have dl: "drop_last (length e) (stem @ e) = stem" using assms(2) by (simp add: drop_last_def)
  have se: "os_path_splitext stem = (stem, [])" using assms(5,6) by (intro os_path_splitext_nodot)
  have fp: "File_file_parts wd f [] = (if d = [] then ''/'' else d, stem, e)"
    using assms(1-4) sp dl se by (simp add: File_file_parts_def Let_def)
  have ns: "\<not> startswith (stem @ suffix @ e) ''/''"
    using assms(5,7) by (cases stem) (auto simp: startswith_def)
  show ?thesis
  proof (cases "d = []")
    case True
    with fp ns show ?thesis by (simp add: sibling_path_def os_path_join_def endswith_def)
  next
    case False
    with assms(9) have "last d \<noteq> CHR ''/''" by simp
    with False have "\<not> endswith d ''/''" by (auto simp: endswith_iff)
    with False fp ns show ?thesis by (simp add: sibling_path_def os_path_join_def)
  qed
qed

text \<open>
  What holds for every file whose path ends in \<open>.nii.gz\<close> (or \<open>.mif.gz\<close>): the extension
  field is the whole two-part extension, \<open>file_parts\<close> returns it, and a sibling path made
  by appending a suffix ends in the suffix followed by the whole extension. Only for an
  absolute, normalised path \<open>d/stem.nii.gz\<close> whose stem has no dot is the sibling
  \<open>d/stem\<close> + suffix + \<open>.nii.gz\<close>.
\<close>

lemma sibling_path_keeps_ext:
  assumes "e = ''.nii.gz'' \<or> e = ''.mif.gz''" and "endswith s e"
  shows "\<exists>f. File_init wd fs s [] False = Inr f \<and> ext f = e \<and>
             (e = ''.nii.gz'' \<longrightarrow> NiiFile_init wd fs loads s False False = Inr f) \<and>
             snd (snd (File_file_parts wd f [])) = e \<and>
             endswith (sibling_path wd f suffix) (suffix @ e) \<and>
             File_init wd fs (sibling_path wd f suffix) [] False
               = Inr \<lparr>src = sibling_path wd f suffix, ext = e\<rparr> \<and>
             (\<forall>d stem. s = d @ ''/'' @ stem @ e \<and> os_path_abspath wd s = s \<and> stem \<noteq> [] \<and>
                       CHR ''/'' \<notin> set stem \<and> CHR ''.'' \<notin> set stem \<and> (d = [] \<or> last d \<noteq> CHR ''/'')
                \<longrightarrow> sibling_path wd f suffix = d @ ''/'' @ stem @ suffix @ e)"
proof -
  let ?f = "\<lparr>src = s, ext = e\<rparr>"
  have ne: "e \<noteq> []" and nsl: "CHR ''/'' \<notin> set e" using assms(1) by auto
  have i: "File_init wd fs s [] False = Inr ?f" using assms by (rule File_init_gz_ext)
  have n: "NiiFile_init wd fs loads s False False = Inr ?f" if "e = ''.nii.gz''"
    using that i assms(2) by (simp add: NiiFile_init_def)
  have x: "snd (snd (File_file_parts wd ?f [])) = e" using ne File_file_parts_ext [of ?f wd] by simp
  have en: "endswith (sibling_path wd ?f suffix) (suffix @ e)"
    using ne sibling_path_endswith [of ?f wd suffix] by simp
  then have "endswith (sibling_path wd ?f suffix) e" by (rule endswith_trans)
  with assms(1) have j: "File_init wd fs (sibling_path wd ?f suffix) [] False
      = Inr \<lparr>src = sibling_path wd ?f suffix, ext = e\<rparr>"
    by (rule File_init_gz_ext)
  have pl: "sibling_path wd ?f suffix = d @ ''/'' @ stem @ suffix @ e"
    if "s = d @ ''/'' @ stem @ e" "os_path_abspath wd s = s" "stem \<noteq> []"
       "CHR ''/'' \<notin> set stem" "CHR ''.'' \<notin> set stem" "d = [] \<or> last d \<noteq> CHR ''/''"
    for d stem
    using that ne nsl by (intro sibling_path_plain) auto
  from i n x en j pl show ?thesis by (intro exI [of _ ?f]) (simp, blast)
qed


lemma abspath_dotted:
  "os_path_abspath ''/out'' ''/out/a.b.nii.gz'' = ''/out/a.b.nii.gz''"
  "os_path_abspath ''/out'' ''/out/a.c.nii.gz'' = ''/out/a.c.nii.gz''"
  "os_path_abspath ''/out'' ''/out/a.json.gz'' = ''/out/a.json.gz''"
  by (simp_all add: os_path_abspath_def os_path_normpath_def os_path_join_def startswith_def endswith_def)

lemma split_dotted:
  "os_path_split ''/out/a.b.nii.gz'' = (''/out'', ''a.b.nii.gz'')"
  "os_path_split ''/out/a.c.nii.gz'' = (''/out'', ''a.c.nii.gz'')"
  "os_path_split ''/out/a.json.gz'' = (''/out'', ''a.json.gz'')"
  by (simp_all add: os_path_split_def)

lemma splitext_dotted:
  "os_path_splitext ''a.b'' = (''a'', ''.b'')" "os_path_splitext ''a.c'' = (''a'', ''.c'')"
  "os_path_splitext ''a.'' = (''a'', ''.'')"
  by (simp_all add: os_path_splitext_def)

text \<open>
  C3. The claim is what \<open>file_parts\<close> documents (``Filename, excluding extension''), but the
  code cuts the file name twice: after the extension is removed, \<open>os.path.splitext\<close> is
  applied to what is left. For \<open>/out/a.b.nii.gz\<close> the stem returned is \<open>a\<close>, not \<open>a.b\<close>, so
  the sibling with suffix \<open>_x\<close> is \<open>/out/a_x.nii.gz\<close> and not \<open>/out/a.b_x.nii.gz\<close>, and the
  siblings of \<open>a.b.nii.gz\<close> and \<open>a.c.nii.gz\<close> are the same path. And \<open>File.__init__\<close> takes
  the last seven characters of any name that ends in \<open>.gz\<close> for the extension: for
  \<open>/out/a.json.gz\<close> that is \<open>json.gz\<close>, and the sibling is \<open>/out/a_xjson.gz\<close>.
\<close>

theorem sibling_path_dotted_stem:
  "NiiFile_init ''/out'' (files world0) (\<lambda>p. True) ''/out/a.b.nii.gz'' False False
     = Inr \<lparr>src = ''/out/a.b.nii.gz'', ext = ''.nii.gz''\<rparr> \<and>
   File_file_parts ''/out'' \<lparr>src = ''/out/a.b.nii.gz'', ext = ''.nii.gz''\<rparr> []
     = (''/out'', ''a'', ''.nii.gz'') \<and>
   sibling_path ''/out'' \<lparr>src = ''/out/a.b.nii.gz'', ext = ''.nii.gz''\<rparr> ''_x'' = ''/out/a_x.nii.gz'' \<and>
   sibling_path ''/out'' \<lparr>src = ''/out/a.c.nii.gz'', ext = ''.nii.gz''\<rparr> ''_x'' = ''/out/a_x.nii.gz'' \<and>
   File_init ''/out'' (files world0) ''/out/a.json.gz'' [] False
     = Inr \<lparr>src = ''/out/a.json.gz'', ext = ''json.gz''\<rparr> \<and>
   sibling_path ''/out'' \<lparr>src = ''/out/a.json.gz'', ext = ''json.gz''\<rparr> ''_x'' = ''/out/a_xjson.gz''"
  by (simp add: NiiFile_init_def File_init_def File_file_parts_def sibling_path_def abspath_dotted
      split_dotted splitext_dotted endswith_def last_chars_def drop_last_def os_path_join_def
      startswith_def)


section \<open>Properties of \<open>structural_connectome\<close>\<close>

lemma bind_w_Inr:
  "bind_w m f w = (Inr r, w') \<Longrightarrow> \<exists>x w1. m w = (Inr x, w1) \<and> f x w1 = (Inr r, w')"
  by (auto simp: bind_w_def split: prod.splits sum.splits)

lemma return_w_eq [simp]: "return_w x w = (r, w') \<longleftrightarrow> r = Inr x \<and> w' = w"
  by (auto simp: return_w_def)

lemma run_cmd_list_cases:
  assumes "run_cmd_list sys l w = (r, w')"
  shows "(sys (join_words l) False (environ w) (files w) = None \<and> r = Inl (FileNotFoundError (join_words l)) \<and>
            w' = log_call Info (running_msg l) w) \<or>
         (\<exists>out err fs'. sys (join_words l) False (environ w) (files w) = Some (0, out, err, fs') \<and>
            r = Inr () \<and> w' = spawned l 0 fs' w) \<or>
         (\<exists>rc out err fs'. sys (join_words l) False (environ w) (files w) = Some (rc, out, err, fs') \<and> rc \<noteq> 0 \<and>
            r = Inl (RuntimeError ([CHR 0x0A] @ failed_msg (join_words l) rc @ [CHR 0x0A])) \<and>
            w' = log_call Error (failed_msg (join_words l) rc) (spawned l rc fs' w))"
  using assms
  by (auto simp: run_cmd_list_def Let_def spawned_def running_msg_def
      log_call_def split: option.splits prod.splits if_splits sum.splits)

lemma spawned_sel [simp]:
  "cwd (spawned l rc fs' w) = cwd w" "environ (spawned l rc fs' w) = environ w"
  "files (spawned l rc fs' w) = fs'"
  "events (spawned l rc fs' w) = events w @ [Spawn (join_words l) (environ w) rc]"
  "logged (spawned l rc fs' w) = logged w @ [(Info, running_msg l)]"
  by (simp_all add: spawned_def)

lemma run_cmd_list_Inr:
  assumes "run_cmd_list sys l w = (Inr u, w')"
  shows "cwd w' = cwd w \<and> environ w' = environ w \<and>
         events w' = events w @ [Spawn (join_words l) (environ w) 0]"
  using run_cmd_list_cases [OF assms] by auto

lemma os_remove_Inr:
  assumes "os_remove p w = (Inr u, w')"
  shows "cwd w' = cwd w \<and> environ w' = environ w \<and>
         events w' = events w @ [Remove (os_path_abspath (cwd w) p)] \<and>
         files w' (os_path_abspath (cwd w) p) = None"
  using assms by (auto simp: os_remove_def Let_def split: if_splits)

lemma weighted_passes_Inr:
  "weighted_passes sys tck lbls tmp sy zd fo items w = (Inr u, w') \<Longrightarrow>
     cwd w' = cwd w \<and> environ w' = environ w \<and>
     events w' = events w @ concat (map (pass_events tck lbls tmp sy zd fo (environ w) (cwd w)) items) \<and>
     (items \<noteq> [] \<longrightarrow> files w' (os_path_abspath (cwd w) (src tmp)) = None)"
proof (induction items arbitrary: w)
  case Nil
  then show ?case by simp
next
  case (Cons item items)
  from Cons.prems obtain w1 w2 w3 where
    a: "run_cmd_list sys (tcksample_cmd tck (fst item) tmp) w = (Inr (), w1)" and
    b: "run_cmd_list sys (weighted_cmd tck lbls (snd item) tmp sy zd fo) w1 = (Inr (), w2)" and
    c: "os_remove (src tmp) w2 = (Inr (), w3)" and
    d: "weighted_passes sys tck lbls tmp sy zd fo items w3 = (Inr u, w')"
    by (auto dest!: bind_w_Inr)
  note A = run_cmd_list_Inr [OF a] and B = run_cmd_list_Inr [OF b] and C = os_remove_Inr [OF c]
    and D = Cons.IH [OF d]
  have f: "files w' (os_path_abspath (cwd w) (src tmp)) = None"
  proof (cases "items = []")
    case True
    with d have "w' = w3" by simp
    with A B C show ?thesis by simp
  next
    case False
    with A B C D show ?thesis by simp
  qed
  from A B C D f show ?case by (simp add: pass_events_def)
qed

lemma when_w_os_remove_Inr:
  assumes "when_w b (os_remove p) w = (Inr u, w')"
  shows "cwd w' = cwd w \<and> environ w' = environ w \<and>
         events w' = events w @ (if b then [Remove (os_path_abspath (cwd w) p)] else [])"
  using assms os_remove_Inr [of p w u w'] by (auto simp: when_w_def split: if_splits)

lemma compute_diff_metrics_Inr:
  assumes "compute_diff_metrics sys self d maskf fa md ad rd cleanup force w = (Inr m, w')"
  shows "m = snd (diff_metric_names (cwd w) self d) \<and> cwd w' = cwd w \<and> environ w' = environ w \<and>
         events w' = events w @
           [Spawn (join_words (dwi2tensor_cmd d (fst (diff_metric_names (cwd w) self d)) maskf force)) (environ w) 0,
            Spawn (join_words (tensor2metric_cmd (fst (diff_metric_names (cwd w) self d)) m fa md ad rd)) (environ w) 0]
           @ (if cleanup then [Remove (os_path_abspath (cwd w) (src (fst (diff_metric_names (cwd w) self d))))] else [])"
proof -
  obtain tensor mm where n: "diff_metric_names (cwd w) self d = (tensor, mm)" by (cases "diff_metric_names (cwd w) self d")
  from assms n obtain w1 w2 where
    a: "run_cmd_list sys (dwi2tensor_cmd d tensor maskf force) w = (Inr (), w1)" and
    b: "run_cmd_list sys (tensor2metric_cmd tensor mm fa md ad rd) w1 = (Inr (), w2)" and
    c: "when_w cleanup (os_remove (src tensor)) w2 = (Inr (), w')" and
    m: "m = mm"
    by (auto simp: compute_diff_metrics_def dest!: bind_w_Inr)
  from run_cmd_list_Inr [OF a] run_cmd_list_Inr [OF b] when_w_os_remove_Inr [OF c] n m
  show ?thesis by simp
qed

lemma metric_item_Inr:
  "metric_item b name maps sel out w = (Inr items, w') \<Longrightarrow>
     w' = w \<and> (if b then (\<exists>m. maps = Some m \<and> items = [(sel m, out)]) else items = [])"
  by (auto simp: metric_item_def split: if_splits option.splits)

lemma os_path_join_inject:
  assumes "os_path_join a (b @ s) = os_path_join a (b @ t)"
      and "\<not> startswith s ''/''" and "\<not> startswith t ''/''"
  shows "s = t"
proof -
  have "startswith (b @ s) ''/'' \<longleftrightarrow> startswith (b @ t) ''/''"
    using assms(2,3) by (cases b) (auto simp: startswith_def)
  with assms(1) show ?thesis by (auto simp: os_path_join_def split: if_splits)
qed

lemma stage_name_inject:
  "stage_name wd f s = stage_name wd f t \<Longrightarrow> \<not> startswith s ''/'' \<Longrightarrow> \<not> startswith t ''/'' \<Longrightarrow> s = t"
  by (auto simp: stage_name_def split_beta Let_def dest: os_path_join_inject)

lemma src_new_File [simp]: "src (new_File s) = s"
  by (simp add: new_File_def)

lemma connectome_outputs_distinct:
  "distinct (map src [fa_connectome (fst (connectome_names wd self)),
                      md_connectome (fst (connectome_names wd self)),
                      ad_connectome (fst (connectome_names wd self)),
                      rd_connectome (fst (connectome_names wd self))])"
  by (auto simp: connectome_names_def startswith_def dest!: stage_name_inject)

text \<open>
  A run of \<open>structural_connectome\<close> with all four weighting flags that returns had a
  \<open>dwi\<close>, and its trace is: the tensor fit, \<open>tensor2metric\<close> writing the MD, FA, AD and RD
  maps, the unweighted connectome, and then four passes, for FA, MD, AD and RD in this
  order. Each pass samples its own map into the scratch file, builds its own weighted
  connectome from the scratch file, and removes the scratch file before the next pass
  starts; every invocation exited with status 0. The four weighted outputs are four
  different paths, and the scratch file does not exist when the operation returns.
\<close>

lemma structural_connectome_trace:
  assumes "structural_connectome sys self tck lbls dwi maskf sy zd True True True True cleanup force w
             = (Inr res, w')"
  shows "\<exists>d. dwi = Some d \<and>
          (let (out, tmp) = connectome_names (cwd w) self;
               (tensor, m) = diff_metric_names (cwd w) self d;
               en = environ w
           in res = out \<and>
              events w' = events w
                @ [Spawn (join_words (dwi2tensor_cmd d tensor maskf force)) en 0,
                   Spawn (join_words (tensor2metric_cmd tensor m True True True True)) en 0]
                @ (if cleanup then [Remove (os_path_abspath (cwd w) (src tensor))] else [])
                @ [Spawn (join_words (connectome_cmd tck lbls (connectome out) sy zd force)) en 0]
                @ pass_events tck lbls tmp sy zd force en (cwd w) (fa_mif m, fa_connectome out)
                @ pass_events tck lbls tmp sy zd force en (cwd w) (md_mif m, md_connectome out)
                @ pass_events tck lbls tmp sy zd force en (cwd w) (ad_mif m, ad_connectome out)
                @ pass_events tck lbls tmp sy zd force en (cwd w) (rd_mif m, rd_connectome out) \<and>
              files w' (os_path_abspath (cwd w) (src tmp)) = None \<and>
              distinct (map src [fa_connectome out, md_connectome out, ad_connectome out,
                                 rd_connectome out]))"
proof -
  obtain out tmp where cn: "connectome_names (cwd w) self = (out, tmp)"
    by (cases "connectome_names (cwd w) self")
  let ?A = "\<lambda>w. (case dwi of Some d \<Rightarrow> bind_w (compute_diff_metrics sys self d maskf True True True True cleanup force)
                               (\<lambda>m. return_w (Some m))
         | None \<Rightarrow> return_w None) w"
  from assms cn have s0: "bind_w ?A
          (\<lambda>maps. bind_w (run_cmd_list sys (connectome_cmd tck lbls (connectome out) sy zd force))
          (\<lambda>_. bind_w (metric_item True ''fa_mif'' maps fa_mif (fa_connectome out))
          (\<lambda>i1. bind_w (metric_item True ''md_mif'' maps md_mif (md_connectome out))
          (\<lambda>i2. bind_w (metric_item True ''ad_mif'' maps ad_mif (ad_connectome out))
          (\<lambda>i3. bind_w (metric_item True ''rd_mif'' maps rd_mif (rd_connectome out))
          (\<lambda>i4. bind_w (weighted_passes sys tck lbls tmp sy zd force (i1 @ i2 @ i3 @ i4))
          (\<lambda>_. return_w out))))))) w = (Inr res, w')"
    by (simp add: structural_connectome_def)
  from bind_w_Inr [OF s0] obtain maps w1 where
    a: "?A w = (Inr maps, w1)" and
    s1: "bind_w (run_cmd_list sys (connectome_cmd tck lbls (connectome out) sy zd force))
          (\<lambda>_. bind_w (metric_item True ''fa_mif'' maps fa_mif (fa_connectome out))
          (\<lambda>i1. bind_w (metric_item True ''md_mif'' maps md_mif (md_connectome out))
          (\<lambda>i2. bind_w (metric_item True ''ad_mif'' maps ad_mif (ad_connectome out))
          (\<lambda>i3. bind_w (metric_item True ''rd_mif'' maps rd_mif (rd_connectome out))
          (\<lambda>i4. bind_w (weighted_passes sys tck lbls tmp sy zd force (i1 @ i2 @ i3 @ i4))
          (\<lambda>_. return_w out)))))) w1 = (Inr res, w')"
    by blast
  from bind_w_Inr [OF s1] obtain w2 where
    b: "run_cmd_list sys (connectome_cmd tck lbls (connectome out) sy zd force) w1 = (Inr (), w2)" and
    s2: "bind_w (metric_item True ''fa_mif'' maps fa_mif (fa_connectome out))
          (\<lambda>i1. bind_w (metric_item True ''md_mif'' maps md_mif (md_connectome out))
          (\<lambda>i2. bind_w (metric_item True ''ad_mif'' maps ad_mif (ad_connectome out))
          (\<lambda>i3. bind_w (metric_item True ''rd_mif'' maps rd_mif (rd_connectome out))
          (\<lambda>i4. bind_w (weighted_passes sys tck lbls tmp sy zd force (i1 @ i2 @ i3 @ i4))
          (\<lambda>_. return_w out))))) w2 = (Inr res, w')"
    by auto
  from bind_w_Inr [OF s2] obtain i1 w3 where
    i1': "metric_item True ''fa_mif'' maps fa_mif (fa_connectome out) w2 = (Inr i1, w3)" and
    s3: "bind_w (metric_item True ''md_mif'' maps md_mif (md_connectome out))
          (\<lambda>i2. bind_w (metric_item True ''ad_mif'' maps ad_mif (ad_connectome out))
          (\<lambda>i3. bind_w (metric_item True ''rd_mif'' maps rd_mif (rd_connectome out))
          (\<lambda>i4. bind_w (weighted_passes sys tck lbls tmp sy zd force (i1 @ i2 @ i3 @ i4))
          (\<lambda>_. return_w out)))) w3 = (Inr res, w')"
    by blast
  from metric_item_Inr [OF i1'] have w3: "w3 = w2" by simp
  from bind_w_Inr [OF s3] obtain i2 w4 where
    i2': "metric_item True ''md_mif'' maps md_mif (md_connectome out) w3 = (Inr i2, w4)" and
    s4: "bind_w (metric_item True ''ad_mif'' maps ad_mif (ad_connectome out))
          (\<lambda>i3. bind_w (metric_item True ''rd_mif'' maps rd_mif (rd_connectome out))
          (\<lambda>i4. bind_w (weighted_passes sys tck lbls tmp sy zd force (i1 @ i2 @ i3 @ i4))
          (\<lambda>_. return_w out))) w4 = (Inr res, w')"
    by blast
  from metric_item_Inr [OF i2'] have w4: "w4 = w3" by simp
  from bind_w_Inr [OF s4] obtain i3 w5 where
    i3': "metric_item True ''ad_mif'' maps ad_mif (ad_connectome out) w4 = (Inr i3, w5)" and
    s5: "bind_w (metric_item True ''rd_mif'' maps rd_mif (rd_connectome out))
          (\<lambda>i4. bind_w (weighted_passes sys tck lbls tmp sy zd force (i1 @ i2 @ i3 @ i4))
          (\<lambda>_. return_w out)) w5 = (Inr res, w')"
    by blast
  from metric_item_Inr [OF i3'] have w5: "w5 = w4" by simp
  from bind_w_Inr [OF s5] obtain i4 w6 where
    i4': "metric_item True ''rd_mif'' maps rd_mif (rd_connectome out) w5 = (Inr i4, w6)" and
    s6: "bind_w (weighted_passes sys tck lbls tmp sy zd force (i1 @ i2 @ i3 @ i4))
          (\<lambda>_. return_w out) w6 = (Inr res, w')"
    by blast
  from metric_item_Inr [OF i4'] have w6: "w6 = w5" by simp
  from bind_w_Inr [OF s6] have
    p': "weighted_passes sys tck lbls tmp sy zd force (i1 @ i2 @ i3 @ i4) w6 = (Inr (), w')" and
    r: "res = out"
    by auto
  from i1' i2' i3' i4' p' w3 w4 w5 w6 have
    i1: "metric_item True ''fa_mif'' maps fa_mif (fa_connectome out) w2 = (Inr i1, w2)" and
    i2: "metric_item True ''md_mif'' maps md_mif (md_connectome out) w2 = (Inr i2, w2)" and
    i3: "metric_item True ''ad_mif'' maps ad_mif (ad_connectome out) w2 = (Inr i3, w2)" and
    i4: "metric_item True ''rd_mif'' maps rd_mif (rd_connectome out) w2 = (Inr i4, w2)" and
    p: "weighted_passes sys tck lbls tmp sy zd force (i1 @ i2 @ i3 @ i4) w2 = (Inr (), w')"
    by simp_all
  from i1 metric_item_Inr [OF i1] obtain m where maps: "maps = Some m" by auto
  with a obtain d where d: "dwi = Some d" by (cases dwi) auto
  from a d maps obtain
    c: "compute_diff_metrics sys self d maskf True True True True cleanup force w = (Inr m, w1)"
    by (auto dest!: bind_w_Inr)
  obtain tensor mm where n: "diff_metric_names (cwd w) self d = (tensor, mm)"
    by (cases "diff_metric_names (cwd w) self d")
  note C = compute_diff_metrics_Inr [OF c] and B = run_cmd_list_Inr [OF b]
    and P = weighted_passes_Inr [OF p]
  have items: "i1 @ i2 @ i3 @ i4 = [(fa_mif m, fa_connectome out), (md_mif m, md_connectome out),
      (ad_mif m, ad_connectome out), (rd_mif m, rd_connectome out)]"
    using metric_item_Inr [OF i1] metric_item_Inr [OF i2] metric_item_Inr [OF i3]
      metric_item_Inr [OF i4] maps by simp
  have dist: "distinct (map src [fa_connectome out, md_connectome out, ad_connectome out, rd_connectome out])"
    using connectome_outputs_distinct [of "cwd w" self] cn by simp
  from C B P items n r dist cn d show ?thesis by simp
qed





lemma dwi0_eq: "dwi0 = \<lparr>src = ''/out/a.mif'', ext = ''.nii''\<rparr>"
  by (simp add: dwi0_def Mif_def startswith_def drop_last_def last_chars_def)


lemma run_sampling_writes:
  "run_cmd_list (sampling_writes p) l w =
     (Inr (), spawned l 0 (if startswith (join_words l) ''tcksample'' then (files w)(p \<mapsto> RegFile)
                           else files w) w)"
  by (simp add: run_cmd_list_def sampling_writes_def Let_def merge_env_def
      spawned_def running_msg_def)

lemma abspath_scratch0:
  "os_path_abspath ''/out'' ''/out/ametric.vertex.mean.csv'' = ''/out/ametric.vertex.mean.csv''"
  by (simp add: os_path_abspath_def os_path_normpath_def os_path_join_def startswith_def endswith_def)

lemma src_inputs0: "src dwi0 = ''/out/a.mif''" "src labels0 = ''/out/l.mif''" "src tck0 = ''/out/a.tck''"
  by (simp_all add: dwi0_eq labels0_def tck0_def Mif_def startswith_def drop_last_def last_chars_def)

lemma abspath_gz:
  "os_path_abspath ''/out'' ''/d.gz/a.nii'' = ''/d.gz/a.nii''"
  "os_path_abspath ''/out'' ''/d.gz/ametric.vertex.mean.csv'' = ''/d.gz/ametric.vertex.mean.csv''"
  by (simp_all add: os_path_abspath_def os_path_normpath_def os_path_join_def startswith_def endswith_def)

lemma file_parts_recon_gz: "File_file_parts ''/out'' (nii_file recon_gz) [] = (''/d.gz'', ''a'', ''.nii'')"
  by (simp add: File_file_parts_def recon_gz_def new_NiiFile_def endswith_def abspath_gz
      os_path_split_def os_path_splitext_def drop_last_def Let_def)

lemma stage_name_recon_gz: "stage_name ''/out'' (nii_file recon_gz) t = os_path_join ''/d.gz'' (''a'' @ t)"
  by (simp add: stage_name_def file_parts_recon_gz)

lemma connectome_names_recon_gz:
  "connectome_names ''/out'' recon_gz =
     (\<lparr>connectome = \<lparr>src = ''/d.gz/a.structural_connectome.txt'', ext = ''.txt''\<rparr>,
       fa_connectome = \<lparr>src = ''/d.gz/a.structural_connectome.fa_weighted.txt'', ext = ''.txt''\<rparr>,
       md_connectome = \<lparr>src = ''/d.gz/a.structural_connectome.md_weighted.txt'', ext = ''.txt''\<rparr>,
       ad_connectome = \<lparr>src = ''/d.gz/a.structural_connectome.ad_weighted.txt'', ext = ''.txt''\<rparr>,
       rd_connectome = \<lparr>src = ''/d.gz/a.structural_connectome.rd_weighted.txt'', ext = ''.txt''\<rparr>\<rparr>,
      \<lparr>src = ''/d.gz/ametric.vertex.mean.csv'', ext = ''.csv''\<rparr>)"
  by (simp add: connectome_names_def stage_name_recon_gz os_path_join_def startswith_def endswith_def
      new_File_def os_path_splitext_def Let_def)

lemma diff_metric_names_recon_gz:
  "diff_metric_names ''/out'' recon_gz dwi0 =
     (\<lparr>src = ''/d.gz/a.diff_ten.mif'', ext = ''sor.mif''\<rparr>,
      \<lparr>fa_mif = \<lparr>src = ''/d.gz/a.mif'', ext = ''.fa.mif''\<rparr>,
       md_mif = \<lparr>src = ''/d.gz/a.mif'', ext = ''.md.mif''\<rparr>,
       ad_mif = \<lparr>src = ''/d.gz/a.mif'', ext = ''.ad.mif''\<rparr>,
       rd_mif = \<lparr>src = ''/d.gz/a.mif'', ext = ''.rd.mif''\<rparr>\<rparr>)"
  by (simp add: diff_metric_names_def dwi0_eq stage_name_recon_gz os_path_join_def startswith_def
      endswith_def Mif_def drop_last_def last_chars_def Let_def)

lemma world_gz_sel:
  "cwd world_gz = ''/out''" "environ world_gz = Map.empty"
  "files world_gz = [''/'' \<mapsto> Directory, ''/out'' \<mapsto> Directory, ''/d.gz'' \<mapsto> Directory]"
  "logged world_gz = []" "events world_gz = []"
  by (simp_all add: world_gz_def world0_def)

text \<open>
  C5. The claim is what the code sets out to do, but \<open>Mif\<close> decides whether a name is
  gzipped by \<open>'.gz' in file\<close>, which looks at the whole path, and then cuts seven
  characters. When the NIFTI file lies in a directory such as \<open>/d.gz\<close> and the names are
  not gzipped, the four maps \<open>a.fa.mif\<close>, \<open>a.md.mif\<close>, \<open>a.ad.mif\<close>, \<open>a.rd.mif\<close> all become
  \<open>/d.gz/a.mif\<close>: \<open>tensor2metric\<close> is told to write the four maps to one file, and each of
  the four passes samples that file. The run completes and writes four weighted
  connectomes, which are not weighted by four different metrics.
\<close>

theorem structural_connectome_one_map_for_four:
  "fst (structural_connectome (sampling_writes ''/d.gz/ametric.vertex.mean.csv'') recon_gz tck0 labels0
          (Some dwi0) None False False True True True True False False world_gz)
     = Inr \<lparr>connectome = \<lparr>src = ''/d.gz/a.structural_connectome.txt'', ext = ''.txt''\<rparr>,
            fa_connectome = \<lparr>src = ''/d.gz/a.structural_connectome.fa_weighted.txt'', ext = ''.txt''\<rparr>,
            md_connectome = \<lparr>src = ''/d.gz/a.structural_connectome.md_weighted.txt'', ext = ''.txt''\<rparr>,
            ad_connectome = \<lparr>src = ''/d.gz/a.structural_connectome.ad_weighted.txt'', ext = ''.txt''\<rparr>,
            rd_connectome = \<lparr>src = ''/d.gz/a.structural_connectome.rd_weighted.txt'', ext = ''.txt''\<rparr>\<rparr> \<and>
   events (snd (structural_connectome (sampling_writes ''/d.gz/ametric.vertex.mean.csv'') recon_gz tck0 labels0
          (Some dwi0) None False False True True True True False False world_gz))
     = [Spawn ''dwi2tensor /out/a.mif /d.gz/a.diff_ten.mif'' Map.empty 0,
        Spawn ''tensor2metric /d.gz/a.diff_ten.mif -adc /d.gz/a.mif -fa /d.gz/a.mif -ad /d.gz/a.mif -rd /d.gz/a.mif''
        Map.empty 0,
        Spawn ''tck2connectome /out/a.tck /out/l.mif /d.gz/a.structural_connectome.txt'' Map.empty 0,
        Spawn ''tcksample /out/a.tck /d.gz/a.mif /d.gz/ametric.vertex.mean.csv -stat_tck mean'' Map.empty 0,
        Spawn (''tck2connectome /out/a.tck /out/l.mif /d.gz/a.structural_connectome.fa_weighted.txt'' @
             '' -scale_file /d.gz/ametric.vertex.mean.csv -stat_edge mean'') Map.empty 0,
        Remove ''/d.gz/ametric.vertex.mean.csv'',
        Spawn ''tcksample /out/a.tck /d.gz/a.mif /d.gz/ametric.vertex.mean.csv -stat_tck mean'' Map.empty 0,
        Spawn (''tck2connectome /out/a.tck /out/l.mif /d.gz/a.structural_connectome.md_weighted.txt'' @
             '' -scale_file /d.gz/ametric.vertex.mean.csv -stat_edge mean'') Map.empty 0,
        Remove ''/d.gz/ametric.vertex.mean.csv'',
        Spawn ''tcksample /out/a.tck /d.gz/a.mif /d.gz/ametric.vertex.mean.csv -stat_tck mean'' Map.empty 0,
        Spawn (''tck2connectome /out/a.tck /out/l.mif /d.gz/a.structural_connectome.ad_weighted.txt'' @
             '' -scale_file /d.gz/ametric.vertex.mean.csv -stat_edge mean'') Map.empty 0,
        Remove ''/d.gz/ametric.vertex.mean.csv'',
        Spawn ''tcksample /out/a.tck /d.gz/a.mif /d.gz/ametric.vertex.mean.csv -stat_tck mean'' Map.empty 0,
        Spawn (''tck2connectome /out/a.tck /out/l.mif /d.gz/a.structural_connectome.rd_weighted.txt'' @
             '' -scale_file /d.gz/ametric.vertex.mean.csv -stat_edge mean'') Map.empty 0,
        Remove ''/d.gz/ametric.vertex.mean.csv'']"
  by (simp add: structural_connectome_def compute_diff_metrics_def world_gz_sel connectome_names_recon_gz
      diff_metric_names_recon_gz bind_w_def return_w_def when_w_def metric_item_def run_sampling_writes
      os_remove_def abspath_gz Let_def tcksample_cmd_def weighted_cmd_def connectome_cmd_def
      dwi2tensor_cmd_def tensor2metric_cmd_def flag_def startswith_def src_inputs0)

lemma stops_return [simp]: "stops_at_failure w (return_w x w)"
  by (simp add: stops_at_failure_def return_w_def)

lemma stops_raise [simp]: "stops_at_failure w (Inl e, w)"
  by (simp add: stops_at_failure_def)













end
